theory Spec2Isabelle
  imports Main "HOL-Library.Word"
begin

unbundle bit_operations_syntax

section \<open>Values shared by the services\<close>

text \<open>
  A JavaScript exception \<^verbatim>\<open>new Error(msg)\<close> is the value \<open>Error msg\<close>, a \<^verbatim>\<open>TypeError\<close>
  raised by the engine is \<open>TypeError msg\<close>, and \<open>error_text\<close> is the text that a
  template literal \<^verbatim>\<open>`${error}`\<close> gives for either. An error raised by the PostgreSQL
  server while a statement runs is \<open>SqlError msg\<close>, \<open>msg\<close> being the text that
  \<^verbatim>\<open>String(error)\<close> gives for it. A function that can throw returns a sum, \<open>Inl\<close>
  carrying the exception.
\<close>

datatype js_error = Error string | TypeError string

fun error_text :: "js_error \<Rightarrow> string" where
  "error_text (Error m) = ''Error: '' @ m"
| "error_text (TypeError m) = ''TypeError: '' @ m"

datatype sql_error = SqlError string

text \<open>
  \<^verbatim>\<open>server/db.ts\<close>, \<^verbatim>\<open>getDb\<close>: the handle is \<^verbatim>\<open>drizzle(client, { schema })\<close> of
  \<^verbatim>\<open>drizzle-orm/postgres-js\<close> over a \<^verbatim>\<open>postgres\<close> client. The promise of its \<^verbatim>\<open>execute\<close>
  resolves to the array of the rows itself; that value has no property \<^verbatim>\<open>rows\<close>. The
  services read the first row as \<^verbatim>\<open>result.rows[0]\<close>: \<^verbatim>\<open>result.rows\<close> is \<^verbatim>\<open>undefined\<close>, and
  indexing it raises a \<^verbatim>\<open>TypeError\<close>, whatever rows the statement returned. The
  message is the one of V8, the engine of Node.js (the guide of the repository asks
  for Node.js 18 or later).
\<close>

definition result_rows_0 :: "'row list \<Rightarrow> js_error + 'row option" where
  "result_rows_0 result = Inl (TypeError ''Cannot read properties of undefined (reading '0')'')"

text \<open>
  The functions of the \<^verbatim>\<open>pgcrypto\<close> extension and the row of \<^verbatim>\<open>system_settings\<close> that
  the services reach through \<^verbatim>\<open>db.execute\<close>. The extension is not part of the
  repository, so its functions are fields of the database handle. A JavaScript string
  is its list of UTF-16 code units, a \<^verbatim>\<open>Buffer\<close> a list of bytes. \<^verbatim>\<open>pgp_sym_encrypt\<close> is
  randomised: the natural number stands for the random choices of one call.
  \<^verbatim>\<open>getDb()\<close> returns the handle or \<^verbatim>\<open>null\<close>: a \<open>pgcrypto option\<close>.
\<close>

record pgcrypto =
  crypt :: "string \<Rightarrow> string \<Rightarrow> sql_error + string"
  pgp_sym_encrypt :: "16 word list \<Rightarrow> string \<Rightarrow> nat \<Rightarrow> sql_error + 8 word list"
  pgp_sym_decrypt :: "8 word list \<Rightarrow> string \<Rightarrow> sql_error + 16 word list"
  encryption_key :: "string option"

section \<open>Credential hashing: \<^verbatim>\<open>AuthService.verifyPassword\<close>\<close>

text \<open>
  \<^verbatim>\<open>services/auth.ts\<close>, \<^verbatim>\<open>verifyPassword(plainPassword, hashedPassword)\<close>. The result
  pairs the returned boolean with the number of statements sent to the database.
  The order of the source is kept: the handle is tested first, then the two strings
  (\<^verbatim>\<open>!s\<close> holds of a string exactly when it is empty), then the query
  \<^verbatim>\<open>SELECT (hash = crypt(plain, hash)) as valid\<close> and the reading of its first row as
  \<^verbatim>\<open>result.rows[0]\<close>, both inside a \<^verbatim>\<open>try\<close> whose \<^verbatim>\<open>catch\<close> returns \<^verbatim>\<open>false\<close>.
\<close>

definition verifyPassword :: "pgcrypto option \<Rightarrow> string \<Rightarrow> string \<Rightarrow> js_error + (bool \<times> nat)" where
  "verifyPassword db plainPassword hashedPassword =
     (case db of
        None \<Rightarrow> Inl (Error ''[Auth] Database not available'')
      | Some d \<Rightarrow>
          if plainPassword = [] \<or> hashedPassword = [] then Inr (False, 0)
          else (case crypt d plainPassword hashedPassword of
                  Inl e \<Rightarrow> Inr (False, 1)
                | Inr c \<Rightarrow>
                    (case result_rows_0 [hashedPassword = c] of
                       Inl e \<Rightarrow> Inr (False, 1)
                     | Inr row \<Rightarrow> Inr (row = Some True, 1))))"

section \<open>Field encryption: \<^verbatim>\<open>PGPService\<close>\<close>

text \<open>
  \<^verbatim>\<open>String.prototype.trim\<close> removes the code units of ECMAScript's WhiteSpace and
  LineTerminator productions from both ends.
\<close>

definition is_js_whitespace :: "16 word \<Rightarrow> bool" where
  "is_js_whitespace c =
     (c = 0x0009 \<or> c = 0x000A \<or> c = 0x000B \<or> c = 0x000C \<or> c = 0x000D \<or> c = 0x0020
      \<or> c = 0x00A0 \<or> c = 0x1680 \<or> (0x2000 \<le> c \<and> c \<le> 0x200A) \<or> c = 0x2028
      \<or> c = 0x2029 \<or> c = 0x202F \<or> c = 0x205F \<or> c = 0x3000 \<or> c = 0xFEFF)"

definition js_trim :: "16 word list \<Rightarrow> 16 word list" where
  "js_trim s = rev (dropWhile is_js_whitespace (rev (dropWhile is_js_whitespace s)))"

text \<open>
  The SQL functions of the schema. \<^verbatim>\<open>app_get_encryption_key()\<close> is \<open>encryption_key\<close>
  (\<open>None\<close> for SQL \<^verbatim>\<open>NULL\<close>: no row, or no such JSON field); the \<^verbatim>\<open>pgcrypto\<close> functions are
  strict, so a \<^verbatim>\<open>NULL\<close> key gives a \<^verbatim>\<open>NULL\<close> result.
\<close>

definition encrypt_pgp_data :: "pgcrypto \<Rightarrow> nat \<Rightarrow> 16 word list \<Rightarrow> sql_error + 8 word list option" where
  "encrypt_pgp_data d r data =
     (case encryption_key d of
        None \<Rightarrow> Inr None
      | Some k \<Rightarrow> (case pgp_sym_encrypt d data k r of Inl e \<Rightarrow> Inl e | Inr c \<Rightarrow> Inr (Some c)))"

definition decrypt_pgp_data :: "pgcrypto \<Rightarrow> 8 word list \<Rightarrow> sql_error + 16 word list option" where
  "decrypt_pgp_data d data =
     (case encryption_key d of
        None \<Rightarrow> Inr None
      | Some k \<Rightarrow> (case pgp_sym_decrypt d data k of Inl e \<Rightarrow> Inl e | Inr p \<Rightarrow> Inr (Some p)))"

text \<open>
  \<^verbatim>\<open>PGPService.encrypt\<close> and \<^verbatim>\<open>PGPService.decrypt\<close>. Both wrap the query, the reading
  of its first row as \<^verbatim>\<open>result.rows[0]\<close> and the \<^verbatim>\<open>throw\<close> for a \<^verbatim>\<open>NULL\<close> column in
  \<^verbatim>\<open>try { ... } catch (error) { throw new Error(`... failed: ${error}`) }\<close>. The inner
  \<open>case\<close> is the body of the \<^verbatim>\<open>try\<close>, with the text of the error it raises; the outer
  one is the \<^verbatim>\<open>catch\<close>. The query returns one row, whose column is \<open>None\<close> for \<^verbatim>\<open>NULL\<close>.
\<close>

definition encrypt :: "pgcrypto option \<Rightarrow> nat \<Rightarrow> 16 word list \<Rightarrow> js_error + 8 word list" where
  "encrypt db r plaintext =
     (case db of
        None \<Rightarrow> Inl (Error ''[PGP] Database not available'')
      | Some d \<Rightarrow>
          if plaintext = [] \<or> length (js_trim plaintext) = 0
          then Inl (Error ''[PGP] Cannot encrypt empty string'')
          else (case (case encrypt_pgp_data d r plaintext of
                        Inl (SqlError m) \<Rightarrow> Inl m
                      | Inr column \<Rightarrow>
                          (case result_rows_0 [column] of
                             Inl e \<Rightarrow> Inl (error_text e)
                           | Inr row \<Rightarrow>
                               (case row of
                                  Some (Some encrypted) \<Rightarrow> Inr encrypted
                                | _ \<Rightarrow> Inl (error_text (Error ''Encryption returned null''))))) of
                  Inl error \<Rightarrow> Inl (Error (''Encryption failed: '' @ error))
                | Inr encrypted \<Rightarrow> Inr encrypted))"

definition decrypt :: "pgcrypto option \<Rightarrow> 8 word list \<Rightarrow> js_error + 16 word list" where
  "decrypt db ciphertext =
     (case db of
        None \<Rightarrow> Inl (Error ''[PGP] Database not available'')
      | Some d \<Rightarrow>
          if length ciphertext = 0
          then Inl (Error ''[PGP] Cannot decrypt empty buffer'')
          else (case (case decrypt_pgp_data d ciphertext of
                        Inl (SqlError m) \<Rightarrow> Inl m
                      | Inr column \<Rightarrow>
                          (case result_rows_0 [column] of
                             Inl e \<Rightarrow> Inl (error_text e)
                           | Inr row \<Rightarrow>
                               (case row of
                                  Some (Some decrypted) \<Rightarrow> Inr decrypted
                                | _ \<Rightarrow> Inl (error_text (Error
                                         ''Decryption returned null - invalid ciphertext or wrong key''))))) of
                  Inl error \<Rightarrow> Inl (Error (''Decryption failed: '' @ error))
                | Inr decrypted \<Rightarrow> Inr decrypted))"

text \<open>
  \<^verbatim>\<open>encryptOptional\<close> and \<^verbatim>\<open>decryptOptional\<close>: \<open>None\<close> is \<^verbatim>\<open>null\<close>/\<^verbatim>\<open>undefined\<close>, as
  argument and as result. Their \<^verbatim>\<open>catch\<close> logs the error and returns \<^verbatim>\<open>null\<close>, so they
  never throw.
\<close>

definition encryptOptional :: "pgcrypto option \<Rightarrow> nat \<Rightarrow> 16 word list option \<Rightarrow> 8 word list option" where
  "encryptOptional db r plaintext =
     (case plaintext of
        None \<Rightarrow> None
      | Some p \<Rightarrow>
          if p = [] \<or> length (js_trim p) = 0 then None
          else (case encrypt db r p of Inl e \<Rightarrow> None | Inr c \<Rightarrow> Some c))"

definition decryptOptional :: "pgcrypto option \<Rightarrow> 8 word list option \<Rightarrow> 16 word list option" where
  "decryptOptional db ciphertext =
     (case ciphertext of
        None \<Rightarrow> None
      | Some c \<Rightarrow>
          if length c = 0 then None
          else (case decrypt db c of Inl e \<Rightarrow> None | Inr p \<Rightarrow> Some p))"

text \<open>
  A database handle for evaluation. Its envelope is a byte of randomness, the key, a
  zero byte and the low byte of every code unit; its \<^verbatim>\<open>crypt\<close> appends the password to
  the first four characters of the salt.
\<close>

definition toy_envelope :: "16 word list \<Rightarrow> string \<Rightarrow> nat \<Rightarrow> 8 word list" where
  "toy_envelope p k r = of_nat r # map (\<lambda>c. of_nat (of_char c)) k @ 0 # map ucast p"

definition toy_open :: "8 word list \<Rightarrow> string \<Rightarrow> sql_error + 16 word list" where
  "toy_open c k =
     (if take (length k + 1) (tl c) = map (\<lambda>c. of_nat (of_char c)) k @ [0]
      then Inr (map ucast (drop (length k + 2) c))
      else Inl (SqlError ''error: Wrong key or corrupt data''))"

definition toy_pg :: "string option \<Rightarrow> pgcrypto" where
  "toy_pg key = \<lparr> crypt = (\<lambda>p s. Inr (take 4 s @ p)),
                  pgp_sym_encrypt = (\<lambda>p k r. Inr (toy_envelope p k r)),
                  pgp_sym_decrypt = toy_open,
                  encryption_key = key \<rparr>"

section \<open>The schema, the session and the policies\<close>

text \<open>
  The tables of the schema that the components below read and write, with the columns
  they use. A nullable column is an \<open>option\<close>, \<open>None\<close> being SQL
  \<^verbatim>\<open>NULL\<close>. Identifiers are values of \<^verbatim>\<open>UUID\<close> columns, written as text. Constraints that no property below depends
  on (primary keys, the references to \<^verbatim>\<open>centers\<close>) are not modelled.

  A \<^verbatim>\<open>NUMERIC(10,2)\<close> value is the integer number of its hundredths (\<open>12500\<close> is
  \<^verbatim>\<open>125.00\<close>), a \<^verbatim>\<open>NUMERIC(5,4)\<close> value the integer number of its ten-thousandths
  (\<open>1500\<close> is \<^verbatim>\<open>0.1500\<close>); an \<^verbatim>\<open>INTEGER\<close> is an \<open>int\<close> whose range is checked where it
  is stored.
\<close>

type_synonym uuid = string

record user_row =
  u_id :: uuid
  u_username :: string
  u_is_active :: "bool option"
  u_is_superadmin :: "bool option"
  u_center_id :: "uuid option"

record patient =
  p_id :: uuid
  p_center_id :: "uuid option"
  p_first_name :: string
  p_last_name :: string
  p_is_archived :: "bool option"

record appointment =
  a_id :: uuid
  a_patient_id :: uuid
  a_center_id :: "uuid option"

record invoice =
  i_id :: uuid
  i_center_id :: uuid
  i_total_amount :: int

record document =
  d_id :: uuid
  d_center_id :: "uuid option"

record encounter =
  e_id :: uuid
  e_center_id :: "uuid option"

record medical_act =
  m_id :: uuid
  m_encounter_id :: "uuid option"
  m_price :: int
  m_commission_internal_rate :: "int option"
  m_commission_external_rate :: "int option"
  m_commission_internal_amount :: "int option"
  m_commission_external_amount :: "int option"

record prescription =
  r_id :: uuid
  r_encounter_id :: "uuid option"

record invoice_item =
  it_id :: uuid
  it_invoice_id :: uuid
  it_quantity :: int
  it_unit_price :: int

datatype transaction_type = In | Out

record pharmacy_item =
  ph_id :: uuid
  ph_center_id :: "uuid option"
  ph_current_stock :: "int option"

record pharmacy_transaction =
  tx_item_id :: "uuid option"
  tx_transaction_type :: transaction_type
  tx_quantity :: int

datatype row_image = UserRow user_row | PatientRow patient | InvoiceRow invoice

record audit_log =
  l_table_name :: string
  l_operation :: string
  l_user_id :: "uuid option"
  l_record_id :: "uuid option"
  l_old_data :: "row_image option"
  l_new_data :: "row_image option"

text \<open>
  The state behind the handle that \<^verbatim>\<open>getDb()\<close> returns: one connection with its two
  custom settings, and the tables. \<open>app_user_id\<close> and \<open>app_center_id\<close> are what
  \<^verbatim>\<open>current_setting('app.user_id', TRUE)\<close> and \<^verbatim>\<open>current_setting('app.center_id', TRUE)\<close>
  return: \<^verbatim>\<open>NULL\<close> while the setting was never assigned on the connection.
  \<^verbatim>\<open>setRLSContext\<close> sends \<^verbatim>\<open>SET app.center_id = NULL\<close> for a user without centre;
  \<open>set_null_accepted\<close> is the server's answer to that statement: it clears the setting, or
  it rejects the statement.
  The application's role is taken to be subject to the policies.
\<close>

record database =
  set_null_accepted :: bool
  app_user_id :: "string option"
  app_center_id :: "string option"
  users :: "user_row list"
  patients :: "patient list"
  appointments :: "appointment list"
  invoices :: "invoice list"
  documents :: "document list"
  encounters :: "encounter list"
  medical_acts :: "medical_act list"
  prescriptions :: "prescription list"
  invoice_items :: "invoice_item list"
  pharmacy_items :: "pharmacy_item list"
  pharmacy_transactions :: "pharmacy_transaction list"
  audit_logs :: "audit_log list"

text \<open>SQL's three-valued comparison and disjunction.\<close>

definition sql_eq :: "'a option \<Rightarrow> 'a option \<Rightarrow> bool option" where
  "sql_eq a b = (case a of None \<Rightarrow> None | Some x \<Rightarrow> (case b of None \<Rightarrow> None | Some y \<Rightarrow> Some (x = y)))"

definition sql_or :: "bool option \<Rightarrow> bool option \<Rightarrow> bool option" where
  "sql_or a b =
     (if a = Some True \<or> b = Some True then Some True
      else if a = None \<or> b = None then None
      else Some False)"

text \<open>
  \<^verbatim>\<open>get_user_center_id()\<close> is \<^verbatim>\<open>NULLIF(current_setting('app.center_id', TRUE), '')::UUID\<close>.
  The centre of a session is compared as the text it is: its cast is taken to succeed.
\<close>

definition nullif_empty :: "string option \<Rightarrow> string option" where
  "nullif_empty v = (case v of None \<Rightarrow> None | Some s \<Rightarrow> if s = '''' then None else Some s)"

definition get_user_center_id :: "database \<Rightarrow> uuid option" where
  "get_user_center_id d = nullif_empty (app_center_id d)"

text \<open>
  \<^verbatim>\<open>get_current_user_id()\<close> is \<^verbatim>\<open>NULLIF(current_setting('app.user_id', TRUE), '')::UUID\<close>.
  \<^verbatim>\<open>setRLSContext\<close> assigns to \<^verbatim>\<open>app.user_id\<close> whatever string it is given, and the audit
  trigger catches the failure of this cast, so the cast is modelled here. \<open>uuid_in\<close> is
  the input function of PostgreSQL's type \<^verbatim>\<open>uuid\<close>: thirty-two hexadecimal digits,
  in braces or not, with or without a hyphen after each group of four digits but the
  last. Its value is the identifier as PostgreSQL prints it, in lower case with
  hyphens after the digits 8, 12, 16 and 20; \<open>None\<close> is the error
  \<^verbatim>\<open>invalid input syntax for type uuid\<close>.
\<close>

definition is_hex_digit :: "char \<Rightarrow> bool" where
  "is_hex_digit c = (c \<in> set ''0123456789abcdefABCDEF'')"

definition lower_hex :: "char \<Rightarrow> char" where
  "lower_hex c =
     (if c = CHR ''A'' then CHR ''a'' else if c = CHR ''B'' then CHR ''b''
      else if c = CHR ''C'' then CHR ''c'' else if c = CHR ''D'' then CHR ''d''
      else if c = CHR ''E'' then CHR ''e'' else if c = CHR ''F'' then CHR ''f'' else c)"

fun uuid_digits :: "nat \<Rightarrow> string \<Rightarrow> string option" where
  "uuid_digits 0 s = (if s = [] then Some [] else None)"
| "uuid_digits (Suc n) (a # b # c # e # rest) =
     (if is_hex_digit a \<and> is_hex_digit b \<and> is_hex_digit c \<and> is_hex_digit e
      then (case uuid_digits n (if n \<noteq> 0 \<and> take 1 rest = ''-'' then tl rest else rest) of
              None \<Rightarrow> None
            | Some ds \<Rightarrow> Some (map lower_hex [a, b, c, e] @ ds))
      else None)"
| "uuid_digits (Suc n) s = None"

definition uuid_in :: "string \<Rightarrow> uuid option" where
  "uuid_in s =
     (case (if take 1 s = ''{''
            then (if 2 \<le> length s \<and> last s = CHR ''}'' then Some (butlast (tl s)) else None)
            else Some s) of
        None \<Rightarrow> None
      | Some body \<Rightarrow>
          (case uuid_digits 8 body of
             None \<Rightarrow> None
           | Some ds \<Rightarrow>
               Some (take 8 ds @ ''-'' @ take 4 (drop 8 ds) @ ''-'' @ take 4 (drop 12 ds) @ ''-''
                     @ take 4 (drop 16 ds) @ ''-'' @ drop 20 ds)))"

definition get_current_user_id :: "database \<Rightarrow> sql_error + uuid option" where
  "get_current_user_id d =
     (case nullif_empty (app_user_id d) of
        None \<Rightarrow> Inr None
      | Some s \<Rightarrow>
          (case uuid_in s of
             None \<Rightarrow> Inl (SqlError ''invalid input syntax for type uuid'')
           | Some u \<Rightarrow> Inr (Some u)))"

text \<open>
  The policies of section 7 of the schema. Each is \<^verbatim>\<open>FOR ALL\<close> with a \<^verbatim>\<open>USING\<close> and a
  \<^verbatim>\<open>WITH CHECK\<close> expression; a row passes when the expression is \<^verbatim>\<open>TRUE\<close>. The scalar
  subquery of the last two reads \<^verbatim>\<open>encounters\<close>, a table without row level security.
\<close>

definition users_center_using :: "database \<Rightarrow> user_row \<Rightarrow> bool option" where
  "users_center_using d u =
     sql_or (sql_eq (u_is_superadmin u) (Some True)) (sql_eq (u_center_id u) (get_user_center_id d))"

definition users_center_check :: "database \<Rightarrow> user_row \<Rightarrow> bool option" where
  "users_center_check d u = sql_eq (u_center_id u) (get_user_center_id d)"

definition patients_center :: "database \<Rightarrow> patient \<Rightarrow> bool option" where
  "patients_center d p = sql_eq (p_center_id p) (get_user_center_id d)"

definition appointments_center :: "database \<Rightarrow> appointment \<Rightarrow> bool option" where
  "appointments_center d a = sql_eq (a_center_id a) (get_user_center_id d)"

definition invoices_center :: "database \<Rightarrow> invoice \<Rightarrow> bool option" where
  "invoices_center d i = sql_eq (Some (i_center_id i)) (get_user_center_id d)"

definition documents_center :: "database \<Rightarrow> document \<Rightarrow> bool option" where
  "documents_center d x = sql_eq (d_center_id x) (get_user_center_id d)"

definition encounter_center :: "database \<Rightarrow> uuid option \<Rightarrow> uuid option" where
  "encounter_center d encounter_id =
     (case find (\<lambda>e. Some (e_id e) = encounter_id) (encounters d) of
        None \<Rightarrow> None
      | Some e \<Rightarrow> e_center_id e)"

definition medical_acts_center :: "database \<Rightarrow> medical_act \<Rightarrow> bool option" where
  "medical_acts_center d m = sql_eq (encounter_center d (m_encounter_id m)) (get_user_center_id d)"

definition prescriptions_center :: "database \<Rightarrow> prescription \<Rightarrow> bool option" where
  "prescriptions_center d r = sql_eq (encounter_center d (r_encounter_id r)) (get_user_center_id d)"

text \<open>What a \<^verbatim>\<open>SELECT\<close> on a table under a policy sees: the rows that pass \<^verbatim>\<open>USING\<close>.\<close>

definition visible :: "(database \<Rightarrow> 'r \<Rightarrow> bool option) \<Rightarrow> database \<Rightarrow> 'r list \<Rightarrow> 'r list" where
  "visible policy d rows = filter (\<lambda>r. policy d r = Some True) rows"

section \<open>Tenant isolation: \<^verbatim>\<open>setRLSContext\<close> and the tRPC middlewares\<close>

datatype trpc_code = UNAUTHORIZED | FORBIDDEN | INTERNAL_SERVER_ERROR | NOT_FOUND | BAD_REQUEST

text \<open>
  \<^verbatim>\<open>UNAUTHED_ERR_MSG\<close> and \<^verbatim>\<open>NOT_ADMIN_ERR_MSG\<close> are constants of \<^verbatim>\<open>@shared/const\<close>, which
  is not among the sources; they are kept as names. \<open>Insufficient_stock c q\<close> is the
  message \<^verbatim>\<open>Insufficient stock. Current: c, Requested: q\<close>.
\<close>

datatype trpc_message = UNAUTHED_ERR_MSG | NOT_ADMIN_ERR_MSG | Message string
  | Insufficient_stock int int

datatype trpc_error = TRPCError trpc_code trpc_message

text \<open>\<^verbatim>\<open>ctx.user\<close>, the principal that the session layer resolved; \<open>None\<close> when nobody is logged in.\<close>

record ctx_user =
  user_id :: uuid
  user_username :: string
  user_centerId :: "uuid option"
  user_isSuperadmin :: bool

text \<open>
  \<^verbatim>\<open>x || null\<close> and \<^verbatim>\<open>if (x)\<close> on a \<^verbatim>\<open>string | null\<close>: the empty string counts as absent.
\<close>

definition or_null :: "string option \<Rightarrow> string option" where
  "or_null x = (case x of None \<Rightarrow> None | Some s \<Rightarrow> if s = '''' then None else Some s)"

text \<open>
  \<^verbatim>\<open>db/rls.ts\<close>, \<^verbatim>\<open>setRLSContext(userId, centerId)\<close>. The test of the handle is before
  the \<^verbatim>\<open>try\<close>; a statement that the server rejects is caught and rethrown as
  \<^verbatim>\<open>Failed to apply RLS context\<close>. The first \<^verbatim>\<open>SET\<close> has taken effect when the second is
  rejected, but the function returns no state then: the request ends.
\<close>

definition setRLSContext :: "database option \<Rightarrow> uuid \<Rightarrow> uuid option \<Rightarrow> js_error + database" where
  "setRLSContext db userId centerId =
     (case db of
        None \<Rightarrow> Inl (Error ''[RLS] Database not available'')
      | Some d \<Rightarrow>
          (case or_null centerId of
             Some c \<Rightarrow> Inr (d\<lparr>app_user_id := Some userId, app_center_id := Some c\<rparr>)
           | None \<Rightarrow>
               if set_null_accepted d
               then Inr (d\<lparr>app_user_id := Some userId, app_center_id := None\<rparr>)
               else Inl (Error ''Failed to apply RLS context'')))"

text \<open>
  \<^verbatim>\<open>_core/trpc.ts\<close>, the middlewares \<^verbatim>\<open>requireUser\<close> (behind \<^verbatim>\<open>protectedProcedure\<close>) and
  \<^verbatim>\<open>requireAdmin\<close> (behind \<^verbatim>\<open>adminProcedure\<close>). \<open>next\<close> is the handler; it receives the
  user and the handle that \<^verbatim>\<open>getDb()\<close> returns from then on.
\<close>

definition requireUser ::
  "database option \<Rightarrow> ctx_user option \<Rightarrow> (ctx_user \<Rightarrow> database option \<Rightarrow> trpc_error + 'a) \<Rightarrow> trpc_error + 'a" where
  "requireUser db user next =
     (case user of
        None \<Rightarrow> Inl (TRPCError UNAUTHORIZED UNAUTHED_ERR_MSG)
      | Some u \<Rightarrow>
          (case setRLSContext db (user_id u) (or_null (user_centerId u)) of
             Inl e \<Rightarrow> Inl (TRPCError INTERNAL_SERVER_ERROR (Message ''Failed to initialize secure context''))
           | Inr d \<Rightarrow> next u (Some d)))"

definition requireAdmin ::
  "database option \<Rightarrow> ctx_user option \<Rightarrow> (ctx_user \<Rightarrow> database option \<Rightarrow> trpc_error + 'a) \<Rightarrow> trpc_error + 'a" where
  "requireAdmin db user next =
     (case user of
        None \<Rightarrow> Inl (TRPCError UNAUTHORIZED UNAUTHED_ERR_MSG)
      | Some u \<Rightarrow>
          if \<not> user_isSuperadmin u then Inl (TRPCError FORBIDDEN NOT_ADMIN_ERR_MSG)
          else (case setRLSContext db (user_id u) (or_null (user_centerId u)) of
                  Inl e \<Rightarrow> Inl (TRPCError INTERNAL_SERVER_ERROR (Message ''Failed to initialize admin context''))
                | Inr d \<Rightarrow> next u (Some d)))"

text \<open>
  \<^verbatim>\<open>routers/patients.ts\<close>, \<^verbatim>\<open>patientsRouter.list\<close>: \<^verbatim>\<open>SELECT * FROM patients\<close>, with
  \<^verbatim>\<open>is_archived = false\<close> unless archived patients are asked for, then \<^verbatim>\<open>OFFSET\<close> and
  \<^verbatim>\<open>LIMIT\<close>. Rows come in table order.
\<close>

record list_input =
  limit :: nat
  offset :: nat
  includeArchived :: bool

definition patients_list_handler :: "list_input \<Rightarrow> ctx_user \<Rightarrow> database option \<Rightarrow> trpc_error + patient list" where
  "patients_list_handler input u db =
     (case db of
        None \<Rightarrow> Inl (TRPCError INTERNAL_SERVER_ERROR (Message ''Database not available''))
      | Some d \<Rightarrow>
          Inr (take (limit input) (drop (offset input)
                 (filter (\<lambda>p. includeArchived input \<or> sql_eq (p_is_archived p) (Some False) = Some True)
                    (visible patients_center d (patients d))))))"

definition patients_list :: "database option \<Rightarrow> ctx_user option \<Rightarrow> list_input \<Rightarrow> trpc_error + patient list" where
  "patients_list db user input = requireUser db user (patients_list_handler input)"

text \<open>
  \<^verbatim>\<open>usersRouter.list\<close>: \<^verbatim>\<open>SELECT * FROM users\<close> with the optional conditions
  \<^verbatim>\<open>center_id = input.centerId\<close> and \<^verbatim>\<open>is_active = input.isActive\<close>. The password hash is
  removed from every row returned; it is not a column of \<open>user_row\<close>.
\<close>

record users_list_input =
  ul_centerId :: "uuid option"
  ul_isActive :: "bool option"
  ul_limit :: nat
  ul_offset :: nat

definition users_list_handler :: "users_list_input \<Rightarrow> ctx_user \<Rightarrow> database option \<Rightarrow> trpc_error + user_row list" where
  "users_list_handler input u db =
     (case db of
        None \<Rightarrow> Inl (TRPCError INTERNAL_SERVER_ERROR (Message ''Database not available''))
      | Some d \<Rightarrow>
          Inr (take (ul_limit input) (drop (ul_offset input)
                 (filter (\<lambda>r. (or_null (ul_centerId input) = None
                                  \<or> sql_eq (u_center_id r) (ul_centerId input) = Some True)
                              \<and> (ul_isActive input = None
                                  \<or> sql_eq (u_is_active r) (ul_isActive input) = Some True))
                    (visible users_center_using d (users d))))))"

definition users_list :: "database option \<Rightarrow> ctx_user option \<Rightarrow> users_list_input \<Rightarrow> trpc_error + user_row list" where
  "users_list db user input = requireUser db user (users_list_handler input)"

section \<open>Tenant isolation: the data-access helpers and the audit trigger\<close>

text \<open>
  \<^verbatim>\<open>db/rls.ts\<close>, \<^verbatim>\<open>getCurrentRLSContext\<close> and \<^verbatim>\<open>validateRLSContext\<close>. The first reads
  the two settings with one query and its first row as \<^verbatim>\<open>result.rows[0]\<close>, inside a
  \<^verbatim>\<open>try\<close> whose \<^verbatim>\<open>catch\<close> returns \<^verbatim>\<open>null\<close>. No function of the sources calls
  \<^verbatim>\<open>validateRLSContext\<close>.
\<close>

definition getCurrentRLSContext :: "database option \<Rightarrow> (string option \<times> string option) option" where
  "getCurrentRLSContext db =
     (case db of
        None \<Rightarrow> None
      | Some d \<Rightarrow>
          (case result_rows_0 [(app_user_id d, app_center_id d)] of
             Inl e \<Rightarrow> None
           | Inr row \<Rightarrow>
               (case row of
                  None \<Rightarrow> Some (None, None)
                | Some (uid, cid) \<Rightarrow> Some (or_null uid, or_null cid))))"

definition validateRLSContext :: "database option \<Rightarrow> js_error + unit" where
  "validateRLSContext db =
     (case getCurrentRLSContext db of
        None \<Rightarrow> Inl (Error ''[RLS] Context not set. Call setRLSContext() before database operations.'')
      | Some (userId, centerId) \<Rightarrow>
          if userId = None
          then Inl (Error ''[RLS] Context not set. Call setRLSContext() before database operations.'')
          else Inr ())"

text \<open>
  The trigger function \<^verbatim>\<open>log_audit_change\<close>, fired \<^verbatim>\<open>AFTER INSERT OR UPDATE OR DELETE\<close>,
  for each row, on \<^verbatim>\<open>users\<close>, \<^verbatim>\<open>patients\<close> and \<^verbatim>\<open>invoices\<close>. Its inner block
  \<^verbatim>\<open>BEGIN usr_id := get_current_user_id(); EXCEPTION WHEN OTHERS THEN usr_id := NULL; END\<close>
  turns a failure of the cast into a \<^verbatim>\<open>NULL\<close> user. Its \<^verbatim>\<open>INSERT INTO audit_logs\<close> is
  outside that block: \<^verbatim>\<open>audit_logs.user_id\<close> references \<^verbatim>\<open>users(id)\<close>, and a violated
  reference makes the trigger, and with it the statement that fired it, fail.
  \<open>audit_rows\<close> is the trigger fired for each row of one statement, \<open>(old, new)\<close> being the
  images of the row before and after.
\<close>

fun image_id :: "row_image \<Rightarrow> uuid" where
  "image_id (UserRow u) = u_id u"
| "image_id (PatientRow p) = p_id p"
| "image_id (InvoiceRow i) = i_id i"

definition log_audit_change ::
  "database \<Rightarrow> string \<Rightarrow> string \<Rightarrow> row_image option \<Rightarrow> row_image option \<Rightarrow> sql_error + database" where
  "log_audit_change d tg_table_name tg_op old new =
     (let usr_id = (case get_current_user_id d of Inl e \<Rightarrow> None | Inr v \<Rightarrow> v);
          record_id = (case new of Some r \<Rightarrow> Some (image_id r) | None \<Rightarrow> map_option image_id old)
      in case usr_id of
           None \<Rightarrow>
             Inr (d\<lparr>audit_logs := audit_logs d @
                    [\<lparr>l_table_name = tg_table_name, l_operation = tg_op, l_user_id = None,
                      l_record_id = record_id, l_old_data = old, l_new_data = new\<rparr>]\<rparr>)
         | Some usr \<Rightarrow>
             if usr \<in> set (map u_id (users d))
             then Inr (d\<lparr>audit_logs := audit_logs d @
                         [\<lparr>l_table_name = tg_table_name, l_operation = tg_op, l_user_id = Some usr,
                           l_record_id = record_id, l_old_data = old, l_new_data = new\<rparr>]\<rparr>)
             else Inl (SqlError
                    ''insert or update on table audit_logs violates foreign key constraint audit_logs_user_id_fkey''))"

fun audit_rows ::
  "database \<Rightarrow> string \<Rightarrow> string \<Rightarrow> (row_image option \<times> row_image option) list \<Rightarrow> sql_error + database" where
  "audit_rows d t tg_op [] = Inr d"
| "audit_rows d t tg_op ((old, new) # rs) =
     (case log_audit_change d t tg_op old new of
        Inl e \<Rightarrow> Inl e
      | Inr d' \<Rightarrow> audit_rows d' t tg_op rs)"

text \<open>
  \<^verbatim>\<open>server/db.ts\<close>: \<^verbatim>\<open>getPatientsByCenterId\<close>, \<^verbatim>\<open>createPatient\<close> and \<^verbatim>\<open>updatePatient\<close>.
  Each returns an empty answer when there is no database handle and otherwise sends
  one statement, which runs under the policy of \<^verbatim>\<open>patients\<close> and fires the audit
  trigger; an error of the statement is not caught. A mutation returns the value of
  the helper and the state of the database after it.
\<close>

definition getPatientsByCenterId :: "database option \<Rightarrow> uuid \<Rightarrow> patient list" where
  "getPatientsByCenterId db centerId =
     (case db of
        None \<Rightarrow> []
      | Some d \<Rightarrow>
          filter (\<lambda>p. sql_eq (p_center_id p) (Some centerId) = Some True)
            (visible patients_center d (patients d)))"

definition insert_patient :: "database \<Rightarrow> patient \<Rightarrow> sql_error + database" where
  "insert_patient d row =
     (if patients_center d row \<noteq> Some True
      then Inl (SqlError ''new row violates row-level security policy for table patients'')
      else log_audit_change (d\<lparr>patients := patients d @ [row]\<rparr>) ''patients'' ''INSERT''
             None (Some (PatientRow row)))"

definition createPatient :: "database option \<Rightarrow> patient \<Rightarrow> sql_error + patient option \<times> database option" where
  "createPatient db data =
     (case db of
        None \<Rightarrow> Inr (None, None)
      | Some d \<Rightarrow>
          (case insert_patient d data of
             Inl e \<Rightarrow> Inl e
           | Inr d' \<Rightarrow> Inr (Some data, Some d')))"

text \<open>
  \<^verbatim>\<open>Partial<InsertPatient>\<close>: for each column, \<open>None\<close> when the field is not in the object.
\<close>

record patient_patch =
  set_center_id :: "uuid option option"
  set_first_name :: "string option"
  set_last_name :: "string option"
  set_is_archived :: "bool option option"

definition apply_patch :: "patient_patch \<Rightarrow> patient \<Rightarrow> patient" where
  "apply_patch data p =
     p\<lparr>p_center_id := (case set_center_id data of None \<Rightarrow> p_center_id p | Some v \<Rightarrow> v),
       p_first_name := (case set_first_name data of None \<Rightarrow> p_first_name p | Some v \<Rightarrow> v),
       p_last_name := (case set_last_name data of None \<Rightarrow> p_last_name p | Some v \<Rightarrow> v),
       p_is_archived := (case set_is_archived data of None \<Rightarrow> p_is_archived p | Some v \<Rightarrow> v)\<rparr>"

definition update_patients :: "database \<Rightarrow> uuid \<Rightarrow> patient_patch \<Rightarrow> sql_error + patient list \<times> database" where
  "update_patients d pid data =
     (let hit = (\<lambda>p. p_id p = pid \<and> patients_center d p = Some True);
          olds = filter hit (patients d);
          news = map (apply_patch data) olds
      in if list_ex (\<lambda>n. patients_center d n \<noteq> Some True) news
         then Inl (SqlError ''new row violates row-level security policy for table patients'')
         else (case audit_rows (d\<lparr>patients := map (\<lambda>p. if hit p then apply_patch data p else p) (patients d)\<rparr>)
                      ''patients'' ''UPDATE''
                      (map (\<lambda>p. (Some (PatientRow p), Some (PatientRow (apply_patch data p)))) olds) of
                 Inl e \<Rightarrow> Inl e
               | Inr d' \<Rightarrow> Inr (news, d')))"

definition updatePatient ::
  "database option \<Rightarrow> uuid \<Rightarrow> patient_patch \<Rightarrow> sql_error + patient option \<times> database option" where
  "updatePatient db pid data =
     (case db of
        None \<Rightarrow> Inr (None, None)
      | Some d \<Rightarrow>
          (case update_patients d pid data of
             Inl e \<Rightarrow> Inl e
           | Inr (result, d') \<Rightarrow> Inr (if length result > 0 then Some (hd result) else None, Some d')))"

text \<open>
  A database for evaluation: two centres \<open>A\<close> and \<open>B\<close>; \<open>alice\<close> works at \<open>A\<close>, \<open>bob\<close> at
  \<open>B\<close>; \<open>root\<close> is a superadmin assigned to \<open>B\<close> (the deployment script assigns the
  administrator to the first centre), \<open>admin\<close> the seeded superadmin without centre;
  one patient, encounter and so on in each centre, two invoices with total \<^verbatim>\<open>0.00\<close> and
  no line item, one pharmacy item with stock 10. No setting is assigned yet.
\<close>

definition example_db :: database where
  "example_db =
     \<lparr> set_null_accepted = True, app_user_id = None, app_center_id = None,
       users = [\<lparr>u_id = ''alice'', u_username = ''alice'', u_is_active = Some True,
                  u_is_superadmin = Some False, u_center_id = Some ''A''\<rparr>,
                \<lparr>u_id = ''root'', u_username = ''root'', u_is_active = Some True,
                  u_is_superadmin = Some True, u_center_id = Some ''B''\<rparr>,
                \<lparr>u_id = ''bob'', u_username = ''bob'', u_is_active = Some True,
                  u_is_superadmin = Some False, u_center_id = Some ''B''\<rparr>,
                \<lparr>u_id = ''admin'', u_username = ''admin'', u_is_active = Some True,
                  u_is_superadmin = Some True, u_center_id = None\<rparr>],
       patients = [\<lparr>p_id = ''P1'', p_center_id = Some ''A'', p_first_name = ''Ann'',
                     p_last_name = ''One'', p_is_archived = Some False\<rparr>,
                   \<lparr>p_id = ''P2'', p_center_id = Some ''B'', p_first_name = ''Ben'',
                     p_last_name = ''Two'', p_is_archived = Some False\<rparr>],
       appointments = [\<lparr>a_id = ''a1'', a_patient_id = ''P1'', a_center_id = Some ''A''\<rparr>,
                       \<lparr>a_id = ''a2'', a_patient_id = ''P2'', a_center_id = Some ''B''\<rparr>],
       invoices = [\<lparr>i_id = ''i1'', i_center_id = ''A'', i_total_amount = 0\<rparr>,
                   \<lparr>i_id = ''i2'', i_center_id = ''B'', i_total_amount = 0\<rparr>],
       documents = [\<lparr>d_id = ''d1'', d_center_id = Some ''A''\<rparr>,
                    \<lparr>d_id = ''d2'', d_center_id = Some ''B''\<rparr>],
       encounters = [\<lparr>e_id = ''e1'', e_center_id = Some ''A''\<rparr>,
                     \<lparr>e_id = ''e2'', e_center_id = Some ''B''\<rparr>],
       medical_acts = [\<lparr>m_id = ''m1'', m_encounter_id = Some ''e1'', m_price = 10000,
                         m_commission_internal_rate = Some 1500, m_commission_external_rate = Some 500,
                         m_commission_internal_amount = Some 1500, m_commission_external_amount = Some 500\<rparr>,
                       \<lparr>m_id = ''m2'', m_encounter_id = Some ''e2'', m_price = 10000,
                         m_commission_internal_rate = Some 1500, m_commission_external_rate = Some 500,
                         m_commission_internal_amount = Some 1500, m_commission_external_amount = Some 500\<rparr>],
       prescriptions = [\<lparr>r_id = ''r1'', r_encounter_id = Some ''e1''\<rparr>,
                        \<lparr>r_id = ''r2'', r_encounter_id = Some ''e2''\<rparr>],
       invoice_items = [],
       pharmacy_items = [\<lparr>ph_id = ''x1'', ph_center_id = Some ''A'', ph_current_stock = Some 10\<rparr>],
       pharmacy_transactions = [],
       audit_logs = [] \<rparr>"

definition alice :: ctx_user where
  "alice = \<lparr>user_id = ''alice'', user_username = ''alice'', user_centerId = Some ''A'', user_isSuperadmin = False\<rparr>"

definition admin :: ctx_user where
  "admin = \<lparr>user_id = ''admin'', user_username = ''admin'', user_centerId = None, user_isSuperadmin = True\<rparr>"

text \<open>
  The same database with the context of \<open>alice\<close> set; a patient to insert. The short
  names of these rows are not the text of a \<^verbatim>\<open>UUID\<close>, so the audit entries of this
  session carry no user.
\<close>

definition alice_db :: database where
  "alice_db = example_db\<lparr>app_user_id := Some ''alice'', app_center_id := Some ''A''\<rparr>"





section \<open>Consistency engine: the triggers of the schema\<close>

text \<open>
  PostgreSQL rounds a \<^verbatim>\<open>numeric\<close> to the scale of the column that stores it, ties away
  from zero, and raises \<^verbatim>\<open>numeric field overflow\<close> when the rounded value does not fit
  the precision. \<open>round_half_away x m\<close> is \<open>x / m\<close> so rounded; a \<^verbatim>\<open>NUMERIC(10,2)\<close> holds
  fewer than \<open>10 ^ 10\<close> hundredths.
\<close>

definition round_half_away :: "int \<Rightarrow> int \<Rightarrow> int" where
  "round_half_away x m = sgn x * ((\<bar>x\<bar> + m div 2) div m)"

definition numeric_10_2 :: "int \<Rightarrow> sql_error + int" where
  "numeric_10_2 v = (if \<bar>v\<bar> < 10 ^ 10 then Inr v else Inl (SqlError ''numeric field overflow''))"

definition int4 :: "int \<Rightarrow> sql_error + int" where
  "int4 v = (if - (2 ^ 31) \<le> v \<and> v < 2 ^ 31 then Inr v else Inl (SqlError ''integer out of range''))"

subsection \<open>Commissions of a medical act\<close>

text \<open>
  \<^verbatim>\<open>compute_act_commissions\<close>, fired \<^verbatim>\<open>BEFORE INSERT OR UPDATE\<close> for each row of
  \<^verbatim>\<open>medical_acts\<close>: the row it returns is the row that is stored. The product of the
  price (hundredths) and a rate (ten-thousandths) counts millionths; the assignment
  to the \<^verbatim>\<open>NUMERIC(10,2)\<close> field rounds it to hundredths.
\<close>

definition commission_amount :: "int \<Rightarrow> int option \<Rightarrow> sql_error + int" where
  "commission_amount price rate =
     numeric_10_2 (round_half_away (price * (case rate of None \<Rightarrow> 0 | Some r \<Rightarrow> r)) 10000)"

definition compute_act_commissions :: "medical_act \<Rightarrow> sql_error + medical_act" where
  "compute_act_commissions new =
     (case commission_amount (m_price new) (m_commission_internal_rate new) of
        Inl e \<Rightarrow> Inl e
      | Inr internal \<Rightarrow>
          (case commission_amount (m_price new) (m_commission_external_rate new) of
             Inl e \<Rightarrow> Inl e
           | Inr external \<Rightarrow>
               Inr (new\<lparr>m_commission_internal_amount := Some internal,
                        m_commission_external_amount := Some external\<rparr>)))"

text \<open>
  \<^verbatim>\<open>INSERT INTO medical_acts\<close> of one row, and an \<^verbatim>\<open>UPDATE\<close> that replaces the stored row
  \<open>old\<close> by \<open>new\<close>: the trigger runs first, then the policy of the table checks the row
  to store (and, for the update, has to show the old row).
\<close>

definition insert_medical_act :: "database \<Rightarrow> medical_act \<Rightarrow> sql_error + database" where
  "insert_medical_act d new =
     (case compute_act_commissions new of
        Inl e \<Rightarrow> Inl e
      | Inr row \<Rightarrow>
          if medical_acts_center d row \<noteq> Some True
          then Inl (SqlError ''new row violates row-level security policy for table medical_acts'')
          else Inr (d\<lparr>medical_acts := medical_acts d @ [row]\<rparr>))"

fun replace1 :: "'a \<Rightarrow> 'a \<Rightarrow> 'a list \<Rightarrow> 'a list" where
  "replace1 old new [] = []"
| "replace1 old new (x # xs) = (if x = old then new # xs else x # replace1 old new xs)"

definition update_medical_act :: "database \<Rightarrow> medical_act \<Rightarrow> medical_act \<Rightarrow> sql_error + database" where
  "update_medical_act d old new =
     (if old \<notin> set (medical_acts d) \<or> medical_acts_center d old \<noteq> Some True then Inr d
      else (case compute_act_commissions new of
              Inl e \<Rightarrow> Inl e
            | Inr row \<Rightarrow>
                if medical_acts_center d row \<noteq> Some True
                then Inl (SqlError ''new row violates row-level security policy for table medical_acts'')
                else Inr (d\<lparr>medical_acts := replace1 old row (medical_acts d)\<rparr>)))"

subsection \<open>Total of an invoice\<close>

text \<open>
  \<^verbatim>\<open>invoice_items.total_price\<close> is \<^verbatim>\<open>GENERATED ALWAYS AS (quantity * unit_price) STORED\<close>
  in a \<^verbatim>\<open>NUMERIC(10,2)\<close> column: the product of two numbers of hundredths counts
  ten-thousandths and is rounded to hundredths.
\<close>

definition total_price :: "invoice_item \<Rightarrow> int" where
  "total_price it = round_half_away (it_quantity it * it_unit_price it) 100"

text \<open>
  \<^verbatim>\<open>recalc_invoice_totals\<close>, fired \<^verbatim>\<open>AFTER INSERT OR UPDATE OR DELETE\<close> for each row of
  \<^verbatim>\<open>invoice_items\<close>; \<open>target_id\<close> is \<^verbatim>\<open>OLD.invoice_id\<close> for a delete and
  \<^verbatim>\<open>NEW.invoice_id\<close> otherwise. Its \<^verbatim>\<open>UPDATE invoices\<close> runs under the policy of
  \<^verbatim>\<open>invoices\<close> (the centre of the row does not change, so \<^verbatim>\<open>WITH CHECK\<close> holds when
  \<^verbatim>\<open>USING\<close> does) and fires the audit trigger of \<^verbatim>\<open>invoices\<close> for every row it updates.
\<close>

definition items_total :: "database \<Rightarrow> uuid \<Rightarrow> int" where
  "items_total d target_id =
     sum_list (map total_price (filter (\<lambda>x. it_invoice_id x = target_id) (invoice_items d)))"

definition recalc_invoice_totals :: "database \<Rightarrow> uuid \<Rightarrow> sql_error + database" where
  "recalc_invoice_totals d target_id =
     (let hit = (\<lambda>i. i_id i = target_id \<and> invoices_center d i = Some True);
          total = items_total d target_id
      in if filter hit (invoices d) = [] then Inr d
         else (case numeric_10_2 total of
                 Inl e \<Rightarrow> Inl e
               | Inr t \<Rightarrow>
                   audit_rows (d\<lparr>invoices := map (\<lambda>i. if hit i then i\<lparr>i_total_amount := t\<rparr> else i) (invoices d)\<rparr>)
                     ''invoices'' ''UPDATE''
                     (map (\<lambda>i. (Some (InvoiceRow i), Some (InvoiceRow (i\<lparr>i_total_amount := t\<rparr>))))
                        (filter hit (invoices d)))))"

text \<open>
  The three statements on one line item: the row is stored, replaced or removed, then
  the trigger runs. \<^verbatim>\<open>invoice_id\<close> references \<^verbatim>\<open>invoices(id)\<close>. An error anywhere undoes
  the statement: no state is returned.
\<close>

definition store_item_checks :: "database \<Rightarrow> invoice_item \<Rightarrow> sql_error + unit" where
  "store_item_checks d it =
     (if it_invoice_id it \<notin> set (map i_id (invoices d))
      then Inl (SqlError
             ''insert or update on table invoice_items violates foreign key constraint invoice_items_invoice_id_fkey'')
      else (case numeric_10_2 (total_price it) of Inl e \<Rightarrow> Inl e | Inr t \<Rightarrow> Inr ()))"

definition insert_invoice_item :: "database \<Rightarrow> invoice_item \<Rightarrow> sql_error + database" where
  "insert_invoice_item d new =
     (case store_item_checks d new of
        Inl e \<Rightarrow> Inl e
      | Inr u \<Rightarrow> recalc_invoice_totals (d\<lparr>invoice_items := invoice_items d @ [new]\<rparr>) (it_invoice_id new))"

definition update_invoice_item :: "database \<Rightarrow> invoice_item \<Rightarrow> invoice_item \<Rightarrow> sql_error + database" where
  "update_invoice_item d old new =
     (if old \<notin> set (invoice_items d) then Inr d
      else (case store_item_checks d new of
              Inl e \<Rightarrow> Inl e
            | Inr u \<Rightarrow>
                recalc_invoice_totals (d\<lparr>invoice_items := replace1 old new (invoice_items d)\<rparr>)
                  (it_invoice_id new)))"

definition delete_invoice_item :: "database \<Rightarrow> invoice_item \<Rightarrow> sql_error + database" where
  "delete_invoice_item d old =
     (if old \<notin> set (invoice_items d) then Inr d
      else recalc_invoice_totals (d\<lparr>invoice_items := remove1 old (invoice_items d)\<rparr>) (it_invoice_id old))"

text \<open>Running one statement after another, stopping at the first error.\<close>

definition and_then :: "sql_error + 'a \<Rightarrow> ('a \<Rightarrow> sql_error + 'b) \<Rightarrow> sql_error + 'b" where
  "and_then r f = (case r of Inl e \<Rightarrow> Inl e | Inr x \<Rightarrow> f x)"

text \<open>Rows for evaluation: a medical act of price \<^verbatim>\<open>100.00\<close> and two line items.\<close>

definition act_100 :: medical_act where
  "act_100 = \<lparr>m_id = ''m3'', m_encounter_id = Some ''e1'', m_price = 10000,
               m_commission_internal_rate = Some 1500, m_commission_external_rate = Some 500,
               m_commission_internal_amount = Some 9999, m_commission_external_amount = None\<rparr>"

definition item_2_at_50 :: invoice_item where
  "item_2_at_50 = \<lparr>it_id = ''l1'', it_invoice_id = ''i1'', it_quantity = 200, it_unit_price = 5000\<rparr>"

definition item_1_at_25 :: invoice_item where
  "item_1_at_25 = \<lparr>it_id = ''l2'', it_invoice_id = ''i1'', it_quantity = 100, it_unit_price = 2500\<rparr>"

subsection \<open>Stock of a pharmacy item\<close>

fun sql_map :: "('a \<Rightarrow> sql_error + 'b) \<Rightarrow> 'a list \<Rightarrow> sql_error + 'b list" where
  "sql_map f [] = Inr []"
| "sql_map f (x # xs) =
     (case f x of
        Inl e \<Rightarrow> Inl e
      | Inr y \<Rightarrow> (case sql_map f xs of Inl e \<Rightarrow> Inl e | Inr ys \<Rightarrow> Inr (y # ys)))"

text \<open>
  \<^verbatim>\<open>fn_update_pharmacy_stock\<close>, fired \<^verbatim>\<open>AFTER INSERT\<close> for each row of
  \<^verbatim>\<open>pharmacy_transactions\<close>: it adds the signed quantity to \<^verbatim>\<open>current_stock\<close> of the
  item, a \<^verbatim>\<open>NULL\<close> stock staying \<^verbatim>\<open>NULL\<close>. It compares nothing.
\<close>

definition signed_quantity :: "pharmacy_transaction \<Rightarrow> int" where
  "signed_quantity new = (case tx_transaction_type new of In \<Rightarrow> tx_quantity new | Out \<Rightarrow> - tx_quantity new)"

definition add_stock :: "pharmacy_transaction \<Rightarrow> pharmacy_item \<Rightarrow> sql_error + pharmacy_item" where
  "add_stock new item =
     (if Some (ph_id item) = tx_item_id new
      then (case ph_current_stock item of
              None \<Rightarrow> Inr item
            | Some s \<Rightarrow>
                (case int4 (s + signed_quantity new) of
                   Inl e \<Rightarrow> Inl e
                 | Inr s' \<Rightarrow> Inr (item\<lparr>ph_current_stock := Some s'\<rparr>)))
      else Inr item)"

definition fn_update_pharmacy_stock :: "database \<Rightarrow> pharmacy_transaction \<Rightarrow> sql_error + database" where
  "fn_update_pharmacy_stock d new =
     (case sql_map (add_stock new) (pharmacy_items d) of
        Inl e \<Rightarrow> Inl e
      | Inr items \<Rightarrow> Inr (d\<lparr>pharmacy_items := items\<rparr>))"

text \<open>
  \<^verbatim>\<open>INSERT INTO pharmacy_transactions\<close> of one row: \<^verbatim>\<open>quantity\<close> is an \<^verbatim>\<open>INTEGER\<close>,
  \<^verbatim>\<open>item_id\<close> references \<^verbatim>\<open>pharmacy_items(id)\<close>; then the trigger runs.
\<close>

definition insert_pharmacy_transaction :: "database \<Rightarrow> pharmacy_transaction \<Rightarrow> sql_error + database" where
  "insert_pharmacy_transaction d new =
     (case int4 (tx_quantity new) of
        Inl e \<Rightarrow> Inl e
      | Inr q \<Rightarrow>
          if tx_item_id new \<noteq> None \<and> tx_item_id new \<notin> set (map (\<lambda>i. Some (ph_id i)) (pharmacy_items d))
          then Inl (SqlError
                 ''insert or update on table pharmacy_transactions violates foreign key constraint pharmacy_transactions_item_id_fkey'')
          else fn_update_pharmacy_stock (d\<lparr>pharmacy_transactions := pharmacy_transactions d @ [new]\<rparr>) new)"

text \<open>
  \<^verbatim>\<open>routers/pharmacyItems.ts\<close>, \<^verbatim>\<open>pharmacyItemsRouter.createTransaction\<close>. The schema of
  the input asks for a positive integer quantity. The handler reads the item, compares
  the stock with the quantity of an outbound entry, inserts the entry and reads the
  item again. An error of the \<^verbatim>\<open>INSERT\<close> is not caught; tRPC reports it as an
  \<^verbatim>\<open>INTERNAL_SERVER_ERROR\<close>. A success returns the entry, the new stock and the state
  of the database.
\<close>

record transaction_input =
  ti_itemId :: uuid
  ti_transactionType :: transaction_type
  ti_quantity :: int

definition stock_or_zero :: "pharmacy_item \<Rightarrow> int" where
  "stock_or_zero item = (case ph_current_stock item of None \<Rightarrow> 0 | Some s \<Rightarrow> s)"

definition createTransaction_handler ::
  "transaction_input \<Rightarrow> ctx_user \<Rightarrow> database option
     \<Rightarrow> trpc_error + (pharmacy_transaction \<times> int) \<times> database" where
  "createTransaction_handler input u db =
     (if ti_quantity input \<le> 0 then Inl (TRPCError BAD_REQUEST (Message ''Quantity must be positive''))
      else case db of
        None \<Rightarrow> Inl (TRPCError INTERNAL_SERVER_ERROR (Message ''Database not available''))
      | Some d \<Rightarrow>
          (case find (\<lambda>i. ph_id i = ti_itemId input) (pharmacy_items d) of
             None \<Rightarrow> Inl (TRPCError NOT_FOUND (Message ''Pharmacy item not found''))
           | Some item \<Rightarrow>
               if ti_transactionType input = Out \<and> stock_or_zero item < ti_quantity input
               then Inl (TRPCError BAD_REQUEST (Insufficient_stock (stock_or_zero item) (ti_quantity input)))
               else (case insert_pharmacy_transaction d
                            \<lparr>tx_item_id = Some (ti_itemId input),
                              tx_transaction_type = ti_transactionType input,
                              tx_quantity = ti_quantity input\<rparr> of
                       Inl (SqlError m) \<Rightarrow> Inl (TRPCError INTERNAL_SERVER_ERROR (Message m))
                     | Inr d' \<Rightarrow>
                         Inr ((\<lparr>tx_item_id = Some (ti_itemId input),
                                 tx_transaction_type = ti_transactionType input,
                                 tx_quantity = ti_quantity input\<rparr>,
                               (case find (\<lambda>i. ph_id i = ti_itemId input) (pharmacy_items d') of
                                  None \<Rightarrow> 0
                                | Some updated \<Rightarrow> stock_or_zero updated)),
                              d'))))"

definition pharmacyItems_createTransaction ::
  "database option \<Rightarrow> ctx_user option \<Rightarrow> transaction_input
     \<Rightarrow> trpc_error + (pharmacy_transaction \<times> int) \<times> database" where
  "pharmacyItems_createTransaction db user input = requireUser db user (createTransaction_handler input)"

text \<open>
  The router file that holds the remaining routers has a second
  \<^verbatim>\<open>createTransaction\<close>, in \<^verbatim>\<open>pharmacyRouter\<close>, which \<^verbatim>\<open>routers/index01.ts\<close> mounts as
  \<^verbatim>\<open>pharmacy\<close>. It asks for a positive quantity and inserts the entry at once.
\<close>

definition pharmacy_createTransaction_handler ::
  "transaction_input \<Rightarrow> ctx_user \<Rightarrow> database option \<Rightarrow> trpc_error + pharmacy_transaction \<times> database" where
  "pharmacy_createTransaction_handler input u db =
     (if ti_quantity input \<le> 0 then Inl (TRPCError BAD_REQUEST (Message ''Number must be greater than 0''))
      else case db of
        None \<Rightarrow> Inl (TRPCError INTERNAL_SERVER_ERROR (Message ''Database not available''))
      | Some d \<Rightarrow>
          (case insert_pharmacy_transaction d
                  \<lparr>tx_item_id = Some (ti_itemId input),
                    tx_transaction_type = ti_transactionType input,
                    tx_quantity = ti_quantity input\<rparr> of
             Inl (SqlError m) \<Rightarrow> Inl (TRPCError INTERNAL_SERVER_ERROR (Message m))
           | Inr d' \<Rightarrow>
               Inr (\<lparr>tx_item_id = Some (ti_itemId input),
                      tx_transaction_type = ti_transactionType input,
                      tx_quantity = ti_quantity input\<rparr>, d')))"

definition pharmacy_createTransaction ::
  "database option \<Rightarrow> ctx_user option \<Rightarrow> transaction_input \<Rightarrow> trpc_error + pharmacy_transaction \<times> database" where
  "pharmacy_createTransaction db user input = requireUser db user (pharmacy_createTransaction_handler input)"

text \<open>
  A sequence of requests to \<^verbatim>\<open>pharmacyItemsRouter.createTransaction\<close>, one after the
  other. A request that fails stores nothing; the settings it assigned are assigned
  again by the next request.
\<close>

fun createTransaction_requests :: "database \<Rightarrow> (ctx_user \<times> transaction_input) list \<Rightarrow> database" where
  "createTransaction_requests d [] = d"
| "createTransaction_requests d ((u, input) # rs) =
     (case pharmacyItems_createTransaction (Some d) (Some u) input of
        Inl e \<Rightarrow> createTransaction_requests d rs
      | Inr (r, d') \<Rightarrow> createTransaction_requests d' rs)"

section \<open>Credential hashing: theorems\<close>

text \<open>
  With two non-empty strings \<^verbatim>\<open>verifyPassword\<close> sends its query and returns \<^verbatim>\<open>false\<close>,
  whatever \<^verbatim>\<open>crypt\<close> answers: the reading of \<^verbatim>\<open>result.rows[0]\<close> raises inside the \<^verbatim>\<open>try\<close>.
\<close>

lemma verifyPassword_nonempty:
  "p \<noteq> [] \<Longrightarrow> h \<noteq> [] \<Longrightarrow> verifyPassword (Some d) p h = Inr (False, 1)"
  by (simp add: verifyPassword_def result_rows_0_def split: sum.splits)

text \<open>
  C10, as stated, fails: \<^verbatim>\<open>verifyPassword\<close> tests the database handle before the
  two strings, so with no database it raises, also on an empty password.
\<close>

theorem verifyPassword_empty_raises_without_db:
  "verifyPassword None '''' ''$2a$06$abc'' = Inl (Error ''[Auth] Database not available'')"
  by (simp add: verifyPassword_def)

text \<open>
  C10, amended: when the database handle is available, an empty password or an empty
  digest makes \<^verbatim>\<open>verifyPassword\<close> return \<^verbatim>\<open>false\<close> (it returns, it does not raise)
  and no statement is sent to the database; when the handle is not available,
  \<^verbatim>\<open>verifyPassword\<close> raises whatever its arguments.
\<close>

theorem verifyPassword_empty_false:
  "verifyPassword (Some d) '''' h = Inr (False, 0) \<and> verifyPassword (Some d) p '''' = Inr (False, 0)
   \<and> verifyPassword None p h = Inl (Error ''[Auth] Database not available'')"
  by (simp add: verifyPassword_def)

section \<open>Field encryption: theorems\<close>

lemma js_trim_Nil: "js_trim [] = []"
  by (simp add: js_trim_def)

lemma decrypt_pgp_data_no_key: "encryption_key d = None \<Longrightarrow> decrypt_pgp_data d c = Inr None"
  by (simp add: decrypt_pgp_data_def)

lemma decrypt_pgp_data_raises:
  "encryption_key d = Some k \<Longrightarrow> pgp_sym_decrypt d c k = Inl e \<Longrightarrow> decrypt_pgp_data d c = Inl e"
  by (simp add: decrypt_pgp_data_def)

text \<open>
  Whatever the database answers, \<^verbatim>\<open>encrypt\<close> and \<^verbatim>\<open>decrypt\<close> return no value: either
  the guard or the query raises, or the reading of \<^verbatim>\<open>result.rows[0]\<close> does. The
  optional variants therefore return \<^verbatim>\<open>null\<close> for every argument.
\<close>

lemma encrypt_raises: "\<exists>e. encrypt db r p = Inl e"
  by (simp add: encrypt_def result_rows_0_def split: option.splits sum.splits sql_error.splits)

lemma decrypt_raises: "\<exists>e. decrypt db c = Inl e"
  by (simp add: decrypt_def result_rows_0_def split: option.splits sum.splits sql_error.splits)

lemma encryptOptional_null: "encryptOptional db r x = None"
proof (cases x)
  case None
  then show ?thesis by (simp add: encryptOptional_def)
next
  case (Some p)
  obtain e where "encrypt db r p = Inl e" using encrypt_raises by blast
  with Some show ?thesis by (simp add: encryptOptional_def)
qed

lemma decryptOptional_null: "decryptOptional db x = None"
proof (cases x)
  case None
  then show ?thesis by (simp add: decryptOptional_def)
next
  case (Some c)
  obtain e where "decrypt db c = Inl e" using decrypt_raises by blast
  with Some show ?thesis by (simp add: decryptOptional_def)
qed

lemma encrypt_answered:
  assumes "js_trim p \<noteq> []" and "encrypt_pgp_data d r p = Inr v"
  shows "encrypt (Some d) r p
           = Inl (Error ''Encryption failed: TypeError: Cannot read properties of undefined (reading '0')'')"
proof -
  from assms(1) have "p \<noteq> []" using js_trim_Nil by auto
  with assms show ?thesis by (simp add: encrypt_def result_rows_0_def)
qed

lemma decrypt_answered:
  assumes "c \<noteq> []" and "decrypt_pgp_data d c = Inr v"
  shows "decrypt (Some d) c
           = Inl (Error ''Decryption failed: TypeError: Cannot read properties of undefined (reading '0')'')"
  using assms by (simp add: decrypt_def result_rows_0_def)

text \<open>
  The guard of \<^verbatim>\<open>encrypt\<close> rejects the empty string and every string of white space.
\<close>

lemma encrypt_rejects_blank:
  "js_trim p = [] \<Longrightarrow> encrypt (Some d) r p = Inl (Error ''[PGP] Cannot encrypt empty string'')"
  by (simp add: encrypt_def)

text \<open>
  C3, as stated, fails: an envelope sealed under the key \<open>k\<close> and opened under the key
  \<open>j\<close> makes \<^verbatim>\<open>decrypt\<close> raise, and \<^verbatim>\<open>decryptOptional\<close>, which read handlers call,
  returns \<^verbatim>\<open>null\<close> for it.
\<close>

theorem decryptOptional_null_on_failure:
  "decrypt (Some (toy_pg (Some ''j''))) [7, 107, 0, 0x48, 0x69]
     = Inl (Error ''Decryption failed: error: Wrong key or corrupt data'')
   \<and> decryptOptional (Some (toy_pg (Some ''j''))) (Some [7, 107, 0, 0x48, 0x69]) = None"
  by (simp add: decryptOptional_def decrypt_def toy_pg_def toy_open_def decrypt_pgp_data_def)

text \<open>
  C3, amended: for a non-empty envelope that the database refuses to open (malformed,
  or sealed under another key) \<^verbatim>\<open>decrypt\<close> raises \<^verbatim>\<open>Decryption failed: \<close> followed by the
  database's error; when no encryption key is configured, \<^verbatim>\<open>decrypt\<close> raises an error
  whose message begins with \<^verbatim>\<open>Decryption failed: \<close> for every non-empty envelope and
  \<^verbatim>\<open>encrypt\<close> one whose message begins with \<^verbatim>\<open>Encryption failed: \<close> for every plaintext
  it accepts (there is no separate error for the missing key). These errors reach the
  caller of \<^verbatim>\<open>decrypt\<close> and \<^verbatim>\<open>encrypt\<close>; the optional variants, which the handlers call,
  catch them and return \<^verbatim>\<open>null\<close>.
\<close>

theorem decrypt_failure_raises_optional_nulls:
  "(c \<noteq> [] \<and> encryption_key d = Some k \<and> pgp_sym_decrypt d c k = Inl (SqlError m)
      \<longrightarrow> decrypt (Some d) c = Inl (Error (''Decryption failed: '' @ m))
          \<and> decryptOptional (Some d) (Some c) = None)
   \<and> (c \<noteq> [] \<and> encryption_key d = None
      \<longrightarrow> (\<exists>msg. decrypt (Some d) c = Inl (Error (''Decryption failed: '' @ msg)))
          \<and> decryptOptional (Some d) (Some c) = None)
   \<and> (js_trim p \<noteq> [] \<and> encryption_key d = None
      \<longrightarrow> (\<exists>msg. encrypt (Some d) r p = Inl (Error (''Encryption failed: '' @ msg)))
          \<and> encryptOptional (Some d) r (Some p) = None)"
proof (intro conjI impI)
  assume a: "c \<noteq> [] \<and> encryption_key d = Some k \<and> pgp_sym_decrypt d c k = Inl (SqlError m)"
  then have "decrypt_pgp_data d c = Inl (SqlError m)" using decrypt_pgp_data_raises by blast
  with a show 1: "decrypt (Some d) c = Inl (Error (''Decryption failed: '' @ m))"
    by (simp add: decrypt_def)
  with a show "decryptOptional (Some d) (Some c) = None" by (simp add: decryptOptional_def)
next
  assume a: "c \<noteq> [] \<and> encryption_key d = None"
  then have "decrypt_pgp_data d c = Inr None" using decrypt_pgp_data_no_key by blast
  with a have 1: "decrypt (Some d) c
        = Inl (Error (''Decryption failed: '' @ ''TypeError: Cannot read properties of undefined (reading '0')''))"
    using decrypt_answered [of c d None] by simp
  then show "\<exists>msg. decrypt (Some d) c = Inl (Error (''Decryption failed: '' @ msg))" by (rule exI)
  from 1 a show "decryptOptional (Some d) (Some c) = None" by (simp add: decryptOptional_def)
next
  assume a: "js_trim p \<noteq> [] \<and> encryption_key d = None"
  then have ne: "p \<noteq> []" using js_trim_Nil by auto
  from a have "encrypt_pgp_data d r p = Inr None" by (simp add: encrypt_pgp_data_def)
  with a have 1: "encrypt (Some d) r p
        = Inl (Error (''Encryption failed: '' @ ''TypeError: Cannot read properties of undefined (reading '0')''))"
    using encrypt_answered [of p d r None] by simp
  then show "\<exists>msg. encrypt (Some d) r p = Inl (Error (''Encryption failed: '' @ msg))" by (rule exI)
  from 1 a ne show "encryptOptional (Some d) r (Some p) = None" by (simp add: encryptOptional_def)
qed

theorem decrypt_failure_raises_optional_nulls_witness:
  "(decrypt (Some (toy_pg (Some ''j''))) [7, 107, 0, 0x48, 0x69]
      = Inl (Error (''Decryption failed: '' @ ''error: Wrong key or corrupt data''))
    \<and> decryptOptional (Some (toy_pg (Some ''j''))) (Some [7, 107, 0, 0x48, 0x69]) = None)
   \<and> ((\<exists>msg. decrypt (Some (toy_pg None)) [7, 107, 0, 0x48, 0x69]
               = Inl (Error (''Decryption failed: '' @ msg)))
    \<and> decryptOptional (Some (toy_pg None)) (Some [7, 107, 0, 0x48, 0x69]) = None)
   \<and> ((\<exists>msg. encrypt (Some (toy_pg None)) 7 [0x48, 0x69] = Inl (Error (''Encryption failed: '' @ msg)))
    \<and> encryptOptional (Some (toy_pg None)) 7 (Some [0x48, 0x69]) = None)"
proof -
  have a: "[7, 107, 0, 0x48, 0x69] \<noteq> ([] :: 8 word list)
           \<and> encryption_key (toy_pg (Some ''j'')) = Some ''j''
           \<and> pgp_sym_decrypt (toy_pg (Some ''j'')) [7, 107, 0, 0x48, 0x69] ''j''
               = Inl (SqlError ''error: Wrong key or corrupt data'')"
    by (simp add: toy_pg_def toy_open_def)
  have b: "[7, 107, 0, 0x48, 0x69] \<noteq> ([] :: 8 word list) \<and> encryption_key (toy_pg None) = None"
    by (simp add: toy_pg_def)
  have c: "js_trim [0x48, 0x69] \<noteq> [] \<and> encryption_key (toy_pg None) = None"
    by (simp add: toy_pg_def js_trim_def is_js_whitespace_def)
  note t1 = decrypt_failure_raises_optional_nulls
              [where d = "toy_pg (Some ''j'')" and c = "[7, 107, 0, 0x48, 0x69]" and k = "''j''"
                 and m = "''error: Wrong key or corrupt data''" and p = "[0x48, 0x69]" and r = 7]
  note t2 = decrypt_failure_raises_optional_nulls
              [where d = "toy_pg None" and c = "[7, 107, 0, 0x48, 0x69]" and k = "''j''"
                 and m = "''error: Wrong key or corrupt data''" and p = "[0x48, 0x69]" and r = 7]
  from t1 [THEN conjunct1, THEN mp, OF a]
       t2 [THEN conjunct2, THEN conjunct1, THEN mp, OF b]
       t2 [THEN conjunct2, THEN conjunct2, THEN mp, OF c]
  show ?thesis by (intro conjI) (erule conjunct1 conjunct2)+
qed

text \<open>
  C4 fails in the code: with the database available and the key \<open>k\<close> configured, the
  database seals the string \<^verbatim>\<open>Hi\<close> and opens the envelope again, but \<^verbatim>\<open>encrypt\<close> raises
  after the query, when it reads \<^verbatim>\<open>result.rows[0]\<close>, and so does \<^verbatim>\<open>decrypt\<close> on the
  envelope that the database made: \<^verbatim>\<open>decrypt(encrypt(s))\<close> is not \<^verbatim>\<open>s\<close>, and the optional
  variants return \<^verbatim>\<open>null\<close> for a present string and a present envelope.
\<close>

theorem encrypt_decrypt_roundtrip_lost:
  "pgp_sym_encrypt (toy_pg (Some ''k'')) [0x48, 0x69] ''k'' 7 = Inr [7, 107, 0, 0x48, 0x69]
   \<and> pgp_sym_decrypt (toy_pg (Some ''k'')) [7, 107, 0, 0x48, 0x69] ''k'' = Inr [0x48, 0x69]
   \<and> encrypt (Some (toy_pg (Some ''k''))) 7 [0x48, 0x69]
       = Inl (Error ''Encryption failed: TypeError: Cannot read properties of undefined (reading '0')'')
   \<and> decrypt (Some (toy_pg (Some ''k''))) [7, 107, 0, 0x48, 0x69]
       = Inl (Error ''Decryption failed: TypeError: Cannot read properties of undefined (reading '0')'')
   \<and> encryptOptional (Some (toy_pg (Some ''k''))) 7 (Some [0x48, 0x69]) = None
   \<and> decryptOptional (Some (toy_pg (Some ''k''))) (Some [7, 107, 0, 0x48, 0x69]) = None"
  by (simp add: encrypt_def decrypt_def encryptOptional_def decryptOptional_def encrypt_pgp_data_def
        decrypt_pgp_data_def result_rows_0_def toy_pg_def toy_envelope_def toy_open_def js_trim_def
        is_js_whitespace_def)

section \<open>Tenant isolation: theorems\<close>

lemma sql_eq_True: "sql_eq a b = Some True \<longleftrightarrow> (\<exists>x. a = Some x \<and> b = Some x)"
  by (auto simp: sql_eq_def split: option.splits)

lemma sql_eq_None_right: "sql_eq a None \<noteq> Some True"
  by (simp add: sql_eq_True)

text \<open>
  \<^verbatim>\<open>getCurrentRLSContext\<close> returns \<^verbatim>\<open>null\<close> and \<^verbatim>\<open>validateRLSContext\<close> raises, with or
  without a context: the reading of \<^verbatim>\<open>result.rows[0]\<close> raises inside the \<^verbatim>\<open>try\<close>.
\<close>

lemma getCurrentRLSContext_null: "getCurrentRLSContext db = None"
  by (simp add: getCurrentRLSContext_def result_rows_0_def split: option.splits)

lemma validateRLSContext_raises:
  "validateRLSContext db
     = Inl (Error ''[RLS] Context not set. Call setRLSContext() before database operations.'')"
  by (simp add: validateRLSContext_def getCurrentRLSContext_null)

lemma or_null_idem: "or_null (or_null x) = or_null x"
  by (simp add: or_null_def split: option.splits)

lemma get_user_center_id_after_set:
  "setRLSContext db uid c = Inr d \<Longrightarrow> get_user_center_id d = or_null c"
  by (auto simp: setRLSContext_def get_user_center_id_def nullif_empty_def or_null_def
           split: option.splits if_splits)

text \<open>
  Under a context whose centre is \<open>A\<close>, each of the six policies that compare the
  centre shows rows of \<open>A\<close> only; for medical acts and prescriptions the centre of a row
  is the centre of its encounter.
\<close>

lemma centre_policies_isolate:
  assumes "get_user_center_id d = Some A"
  shows "p \<in> set (visible patients_center d (patients d)) \<Longrightarrow> p_center_id p = Some A"
    and "a \<in> set (visible appointments_center d (appointments d)) \<Longrightarrow> a_center_id a = Some A"
    and "i \<in> set (visible invoices_center d (invoices d)) \<Longrightarrow> i_center_id i = A"
    and "x \<in> set (visible documents_center d (documents d)) \<Longrightarrow> d_center_id x = Some A"
    and "m \<in> set (visible medical_acts_center d (medical_acts d))
           \<Longrightarrow> encounter_center d (m_encounter_id m) = Some A"
    and "r \<in> set (visible prescriptions_center d (prescriptions d))
           \<Longrightarrow> encounter_center d (r_encounter_id r) = Some A"
  using assms
  by (auto simp: visible_def patients_center_def appointments_center_def invoices_center_def
        documents_center_def medical_acts_center_def prescriptions_center_def sql_eq_True)

text \<open>
  Without a centre in the context (the setting unassigned, cleared or empty) the same
  six policies show no row at all.
\<close>

lemma centre_policies_hide_all:
  assumes "get_user_center_id d = None"
  shows "visible patients_center d (patients d) = []"
    and "visible appointments_center d (appointments d) = []"
    and "visible invoices_center d (invoices d) = []"
    and "visible documents_center d (documents d) = []"
    and "visible medical_acts_center d (medical_acts d) = []"
    and "visible prescriptions_center d (prescriptions d) = []"
  using assms
  by (simp_all add: visible_def patients_center_def appointments_center_def invoices_center_def
        documents_center_def medical_acts_center_def prescriptions_center_def sql_eq_None_right)

text \<open>
  The patient list of a principal of centre \<open>A\<close> holds patients of \<open>A\<close> only, and in the
  example it is exactly the patient of \<open>A\<close>.
\<close>

lemma patients_list_isolated:
  assumes "user_centerId u = Some A" and "A \<noteq> ''''"
    and "patients_list db (Some u) input = Inr rows" and "p \<in> set rows"
  shows "p_center_id p = Some A"
proof -
  from assms(3) obtain d where s: "setRLSContext db (user_id u) (or_null (user_centerId u)) = Inr d"
    and h: "patients_list_handler input u (Some d) = Inr rows"
    by (auto simp: patients_list_def requireUser_def split: sum.splits)
  from s have "get_user_center_id d = or_null (user_centerId u)"
    using get_user_center_id_after_set or_null_idem by metis
  with assms(1,2) have c: "get_user_center_id d = Some A" by (simp add: or_null_def)
  from h assms(4) have "p \<in> set (visible patients_center d (patients d))"
    by (auto simp: patients_list_handler_def dest!: in_set_takeD in_set_dropD)
  with c show ?thesis using centre_policies_isolate(1) by blast
qed

lemma patients_list_example:
  "patients_list (Some example_db) (Some alice) \<lparr>limit = 50, offset = 0, includeArchived = False\<rparr>
     = Inr [\<lparr>p_id = ''P1'', p_center_id = Some ''A'', p_first_name = ''Ann'',
              p_last_name = ''One'', p_is_archived = Some False\<rparr>]"
  by (simp add: patients_list_def requireUser_def setRLSContext_def alice_def or_null_def
        patients_list_handler_def example_db_def visible_def patients_center_def sql_eq_def
        get_user_center_id_def nullif_empty_def)

text \<open>
  C1 fails on the table \<^verbatim>\<open>users\<close>. Its policy lets a row through when the \<^emph>\<open>row\<close> has
  \<^verbatim>\<open>is_superadmin = TRUE\<close>, whatever its centre: \<open>alice\<close>, a principal of centre \<open>A\<close> who is
  not privileged, lists users through \<^verbatim>\<open>protectedProcedure\<close> and receives the row of
  \<open>root\<close>, a user of centre \<open>B\<close>.
\<close>

theorem users_list_shows_superadmin_of_other_centre:
  "users_list (Some example_db) (Some alice)
      \<lparr>ul_centerId = None, ul_isActive = None, ul_limit = 50, ul_offset = 0\<rparr>
     = Inr [\<lparr>u_id = ''alice'', u_username = ''alice'', u_is_active = Some True,
              u_is_superadmin = Some False, u_center_id = Some ''A''\<rparr>,
            \<lparr>u_id = ''root'', u_username = ''root'', u_is_active = Some True,
              u_is_superadmin = Some True, u_center_id = Some ''B''\<rparr>,
            \<lparr>u_id = ''admin'', u_username = ''admin'', u_is_active = Some True,
              u_is_superadmin = Some True, u_center_id = None\<rparr>]"
  by (simp add: users_list_def requireUser_def setRLSContext_def alice_def or_null_def
        users_list_handler_def example_db_def visible_def users_center_using_def sql_eq_def sql_or_def
        get_user_center_id_def nullif_empty_def)

text \<open>
  A privileged principal without centre, through either middleware, reads no row of
  the six tables whose policy compares the centre (or the request fails): no policy
  looks at the principal's privilege.
\<close>

lemma superadmin_context_has_no_centre:
  assumes "or_null (user_centerId u) = None"
    and "setRLSContext db (user_id u) (or_null (user_centerId u)) = Inr d"
  shows "get_user_center_id d = None"
  using assms get_user_center_id_after_set or_null_idem by metis

text \<open>
  C8 fails. The seeded superadmin \<open>admin\<close> has no centre; the table \<^verbatim>\<open>patients\<close> holds
  a patient of \<open>A\<close> and a patient of \<open>B\<close>. Through \<^verbatim>\<open>protectedProcedure\<close> and through
  \<^verbatim>\<open>adminProcedure\<close> the patient list is empty when the server accepts
  \<^verbatim>\<open>SET app.center_id = NULL\<close>, and the request fails when the server rejects it.
\<close>

theorem superadmin_patient_list_is_empty:
  "patients_list (Some example_db) (Some admin) \<lparr>limit = 50, offset = 0, includeArchived = True\<rparr> = Inr []
   \<and> requireAdmin (Some example_db) (Some admin)
        (patients_list_handler \<lparr>limit = 50, offset = 0, includeArchived = True\<rparr>) = Inr []
   \<and> patients_list (Some (example_db\<lparr>set_null_accepted := False\<rparr>)) (Some admin)
        \<lparr>limit = 50, offset = 0, includeArchived = True\<rparr>
      = Inl (TRPCError INTERNAL_SERVER_ERROR (Message ''Failed to initialize secure context''))"
  by (simp add: patients_list_def requireUser_def requireAdmin_def setRLSContext_def admin_def or_null_def
        patients_list_handler_def example_db_def visible_def patients_center_def sql_eq_def
        get_user_center_id_def nullif_empty_def)

text \<open>
  C2, as stated, fails: on a connection where no context was ever set,
  \<^verbatim>\<open>validateRLSContext\<close> would raise, yet \<^verbatim>\<open>getPatientsByCenterId\<close> returns: an empty
  list, not an error.
\<close>

theorem no_context_read_returns_empty_list:
  "validateRLSContext (Some example_db)
     = Inl (Error ''[RLS] Context not set. Call setRLSContext() before database operations.'')
   \<and> getPatientsByCenterId (Some example_db) ''A'' = []"
  by (simp add: validateRLSContext_def getCurrentRLSContext_def result_rows_0_def getPatientsByCenterId_def
        example_db_def visible_def patients_center_def sql_eq_def get_user_center_id_def nullif_empty_def)

lemma update_patients_no_centre:
  assumes "get_user_center_id d = None"
  shows "update_patients d pid data = Inr ([], d)"
proof -
  have hit: "\<And>p. patients_center d p \<noteq> Some True"
    using assms by (simp add: patients_center_def sql_eq_None_right)
  show ?thesis by (simp add: update_patients_def Let_def hit)
qed

text \<open>
  C2, amended: when no context was set on the connection, no data-access function
  raises a missing-context error. A read of a table whose policy compares the centre
  (patients, appointments, invoices, documents, medical acts, prescriptions) returns
  zero rows as an ordinary result; \<^verbatim>\<open>updatePatient\<close> changes nothing and returns
  \<^verbatim>\<open>undefined\<close>; \<^verbatim>\<open>createPatient\<close> is rejected by the policy's \<^verbatim>\<open>WITH CHECK\<close>. Only
  \<^verbatim>\<open>validateRLSContext\<close> raises for the missing context, and a protected procedure
  without principal fails with \<^verbatim>\<open>UNAUTHORIZED\<close> before its handler runs.
\<close>

theorem no_context_fails_closed_without_error:
  assumes "app_user_id d = None" and "app_center_id d = None"
  shows "getPatientsByCenterId (Some d) c = []
         \<and> visible patients_center d (patients d) = []
         \<and> visible appointments_center d (appointments d) = []
         \<and> visible invoices_center d (invoices d) = []
         \<and> visible documents_center d (documents d) = []
         \<and> visible medical_acts_center d (medical_acts d) = []
         \<and> visible prescriptions_center d (prescriptions d) = []
         \<and> updatePatient (Some d) pid data = Inr (None, Some d)
         \<and> createPatient (Some d) row
             = Inl (SqlError ''new row violates row-level security policy for table patients'')
         \<and> validateRLSContext (Some d)
             = Inl (Error ''[RLS] Context not set. Call setRLSContext() before database operations.'')
         \<and> requireUser db None next = Inl (TRPCError UNAUTHORIZED UNAUTHED_ERR_MSG)"
proof -
  from assms(2) have n: "get_user_center_id d = None"
    by (simp add: get_user_center_id_def nullif_empty_def)
  have g: "getPatientsByCenterId (Some d) c = []"
    using centre_policies_hide_all(1) [OF n] by (simp add: getPatientsByCenterId_def)
  have u: "updatePatient (Some d) pid data = Inr (None, Some d)"
    using update_patients_no_centre [OF n] by (simp add: updatePatient_def)
  have cr: "createPatient (Some d) row
              = Inl (SqlError ''new row violates row-level security policy for table patients'')"
    using n by (simp add: createPatient_def insert_patient_def patients_center_def sql_eq_None_right)
  have v: "validateRLSContext (Some d)
             = Inl (Error ''[RLS] Context not set. Call setRLSContext() before database operations.'')"
    by (simp add: validateRLSContext_def getCurrentRLSContext_def result_rows_0_def)
  have r: "requireUser db None next = Inl (TRPCError UNAUTHORIZED UNAUTHED_ERR_MSG)"
    by (simp add: requireUser_def)
  show ?thesis using g u cr v r centre_policies_hide_all [OF n] by simp
qed

theorem no_context_fails_closed_without_error_witness:
  "getPatientsByCenterId (Some example_db) ''A'' = []
   \<and> visible patients_center example_db (patients example_db) = []
   \<and> visible appointments_center example_db (appointments example_db) = []
   \<and> visible invoices_center example_db (invoices example_db) = []
   \<and> visible documents_center example_db (documents example_db) = []
   \<and> visible medical_acts_center example_db (medical_acts example_db) = []
   \<and> visible prescriptions_center example_db (prescriptions example_db) = []
   \<and> updatePatient (Some example_db) ''P1''
        \<lparr>set_center_id = None, set_first_name = Some ''X'', set_last_name = None, set_is_archived = None\<rparr>
      = Inr (None, Some example_db)
   \<and> createPatient (Some example_db)
        \<lparr>p_id = ''P3'', p_center_id = Some ''A'', p_first_name = ''Cy'', p_last_name = ''Three'',
          p_is_archived = Some False\<rparr>
      = Inl (SqlError ''new row violates row-level security policy for table patients'')
   \<and> validateRLSContext (Some example_db)
      = Inl (Error ''[RLS] Context not set. Call setRLSContext() before database operations.'')
   \<and> requireUser (Some example_db) None
        (patients_list_handler \<lparr>limit = 50, offset = 0, includeArchived = True\<rparr>)
      = Inl (TRPCError UNAUTHORIZED UNAUTHED_ERR_MSG)"
proof -
  have a: "app_user_id example_db = None" by (simp add: example_db_def)
  have b: "app_center_id example_db = None" by (simp add: example_db_def)
  show ?thesis by (rule no_context_fails_closed_without_error [OF a b])
qed

section \<open>Audit recorder: theorems\<close>

lemma get_current_user_id_patients_update [simp]:
  "get_current_user_id (d\<lparr>patients := ps\<rparr>) = get_current_user_id d"
  by (simp add: get_current_user_id_def)

lemma get_current_user_id_audit_logs_update [simp]:
  "get_current_user_id (d\<lparr>audit_logs := ls\<rparr>) = get_current_user_id d"
  by (simp add: get_current_user_id_def)

lemma uuid_in_alice: "uuid_in ''alice'' = None"
  by (simp add: uuid_in_def is_hex_digit_def eval_nat_numeral)

text \<open>
  The user of the session as the cast reads it: no user when the setting is
  unassigned or empty, an error when its text is not the text of a \<^verbatim>\<open>UUID\<close>.
\<close>

lemma get_current_user_id_cases:
  "get_current_user_id d =
     (if app_user_id d = None \<or> app_user_id d = Some '''' then Inr None
      else case uuid_in (the (app_user_id d)) of
             None \<Rightarrow> Inl (SqlError ''invalid input syntax for type uuid'')
           | Some u \<Rightarrow> Inr (Some u))"
  by (auto simp: get_current_user_id_def nullif_empty_def split: option.splits)













section \<open>Consistency engine: commissions\<close>

lemma round_half_away_exact:
  assumes "0 < m" and "x mod m = 0"
  shows "round_half_away x m * m = x"
proof -
  from assms(2) obtain k where k: "x = m * k" by auto
  have h: "m div 2 < m" using assms(1) by simp
  have a: "\<bar>x\<bar> = \<bar>k\<bar> * m" using k assms(1) by (simp add: abs_mult)
  have "(\<bar>k\<bar> * m + m div 2) div m = \<bar>k\<bar>"
    using assms(1) h by (simp add: div_pos_pos_trivial)
  then have d: "(\<bar>x\<bar> + m div 2) div m = \<bar>k\<bar>" using a by simp
  have s: "sgn x = sgn k" using k assms(1) by (simp add: sgn_mult)
  have "sgn k * \<bar>k\<bar> = k" by (simp add: sgn_mult_abs)
  then show ?thesis using d s k by (simp add: round_half_away_def)
qed

lemma round_half_away_abs:
  assumes "0 < m"
  shows "\<bar>round_half_away x m\<bar> \<le> (\<bar>x\<bar> + m div 2) div m"
proof -
  have nn: "0 \<le> (\<bar>x\<bar> + m div 2) div m" using assms by (simp add: pos_imp_zdiv_nonneg_iff)
  have "\<bar>round_half_away x m\<bar> = \<bar>sgn x\<bar> * ((\<bar>x\<bar> + m div 2) div m)"
    using nn by (simp add: round_half_away_def abs_mult)
  also have "\<dots> \<le> (\<bar>x\<bar> + m div 2) div m"
    using nn by (cases "x = 0") (simp_all add: abs_sgn_eq)
  finally show ?thesis .
qed

lemma compute_act_commissions_Inr:
  assumes "compute_act_commissions new = Inr row"
  shows "\<exists>a b. commission_amount (m_price new) (m_commission_internal_rate new) = Inr a
           \<and> commission_amount (m_price new) (m_commission_external_rate new) = Inr b
           \<and> row = new\<lparr>m_commission_internal_amount := Some a, m_commission_external_amount := Some b\<rparr>"
  using assms by (auto simp: compute_act_commissions_def split: sum.splits)

lemma commission_amount_Inr:
  "commission_amount price rate = Inr a
     \<Longrightarrow> a = round_half_away (price * (case rate of None \<Rightarrow> 0 | Some r \<Rightarrow> r)) 10000"
  by (auto simp: commission_amount_def numeric_10_2_def split: if_splits)

text \<open>
  The trigger does not fail for a price that fits its column and rates between 0 and
  1, the range that the router accepts.
\<close>

lemma commission_amount_total:
  assumes "\<bar>price\<bar> < 10 ^ 10" and "rate = None \<or> (\<exists>r. rate = Some r \<and> 0 \<le> r \<and> r \<le> 10000)"
  shows "\<exists>a. commission_amount price rate = Inr a"
proof -
  define r where "r = (case rate of None \<Rightarrow> 0 | Some r \<Rightarrow> r)"
  have r: "0 \<le> r" "r \<le> 10000" using assms(2) by (auto simp: r_def)
  have "\<bar>price * r\<bar> = \<bar>price\<bar> * r" using r by (simp add: abs_mult)
  also have "\<dots> \<le> \<bar>price\<bar> * 10000" using r by (intro mult_left_mono) auto
  finally have "(\<bar>price * r\<bar> + 10000 div 2) div 10000 \<le> (\<bar>price\<bar> * 10000 + 10000 div 2) div 10000"
    by (intro zdiv_mono1) auto
  also have "\<dots> = \<bar>price\<bar>" by simp
  finally have "(\<bar>price * r\<bar> + 10000 div 2) div 10000 \<le> \<bar>price\<bar>" .
  moreover have "\<bar>round_half_away (price * r) 10000\<bar> \<le> (\<bar>price * r\<bar> + 10000 div 2) div 10000"
    by (rule round_half_away_abs) simp
  ultimately have "\<bar>round_half_away (price * r) 10000\<bar> < 10 ^ 10" using assms(1) by linarith
  then show ?thesis by (simp add: commission_amount_def numeric_10_2_def r_def)
qed

text \<open>
  C7, as stated, fails on the rounding: an act of price \<^verbatim>\<open>33.33\<close> with rates \<^verbatim>\<open>0.15\<close> and
  \<^verbatim>\<open>0.05\<close> is stored with the amounts \<^verbatim>\<open>5.00\<close> and \<^verbatim>\<open>1.67\<close>, while price times rate
  is \<^verbatim>\<open>4.9995\<close> and \<^verbatim>\<open>1.6665\<close> (in millionths, \<open>500 * 10000\<close> against \<open>3333 * 1500\<close>).
\<close>

theorem commission_amount_is_rounded:
  "compute_act_commissions
     \<lparr>m_id = ''m3'', m_encounter_id = Some ''e1'', m_price = 3333,
       m_commission_internal_rate = Some 1500, m_commission_external_rate = Some 500,
       m_commission_internal_amount = None, m_commission_external_amount = None\<rparr>
   = Inr \<lparr>m_id = ''m3'', m_encounter_id = Some ''e1'', m_price = 3333,
           m_commission_internal_rate = Some 1500, m_commission_external_rate = Some 500,
           m_commission_internal_amount = Some 500, m_commission_external_amount = Some 167\<rparr>
   \<and> (500 :: int) * 10000 \<noteq> 3333 * 1500 \<and> (167 :: int) * 10000 \<noteq> 3333 * 500"
  by (simp add: compute_act_commissions_def commission_amount_def numeric_10_2_def round_half_away_def)

lemma stored_commissions_general:
  assumes "insert_medical_act d new = Inr d'
           \<or> (old \<in> set (medical_acts d) \<and> medical_acts_center d old = Some True
               \<and> update_medical_act d old new = Inr d')"
  shows "\<exists>row \<in> set (medical_acts d').
           m_commission_internal_amount row
             = Some (round_half_away
                      (m_price new * (case m_commission_internal_rate new of None \<Rightarrow> 0 | Some r \<Rightarrow> r)) 10000)
           \<and> m_commission_external_amount row
             = Some (round_half_away
                      (m_price new * (case m_commission_external_rate new of None \<Rightarrow> 0 | Some r \<Rightarrow> r)) 10000)
           \<and> (\<forall>r a. m_commission_internal_rate new = Some r \<and> (m_price new * r) mod 10000 = 0
                    \<and> m_commission_internal_amount row = Some a \<longrightarrow> a * 10000 = m_price new * r)
           \<and> (\<forall>r a. m_commission_external_rate new = Some r \<and> (m_price new * r) mod 10000 = 0
                    \<and> m_commission_external_amount row = Some a \<longrightarrow> a * 10000 = m_price new * r)
           \<and> row = new\<lparr>m_commission_internal_amount := m_commission_internal_amount row,
                        m_commission_external_amount := m_commission_external_amount row\<rparr>
           \<and> compute_act_commissions (new\<lparr>m_commission_internal_amount := x,
                                            m_commission_external_amount := y\<rparr>) = Inr row"
proof -
  from assms obtain row where c: "compute_act_commissions new = Inr row" and m: "row \<in> set (medical_acts d')"
  proof
    assume i: "insert_medical_act d new = Inr d'"
    then obtain row where "compute_act_commissions new = Inr row" "medical_acts d' = medical_acts d @ [row]"
      by (auto simp: insert_medical_act_def split: sum.splits if_splits)
    then show ?thesis using that by simp
  next
    assume u: "old \<in> set (medical_acts d) \<and> medical_acts_center d old = Some True
               \<and> update_medical_act d old new = Inr d'"
    then obtain row where r: "compute_act_commissions new = Inr row"
      and s: "medical_acts d' = replace1 old row (medical_acts d)"
      by (auto simp: update_medical_act_def split: sum.splits if_splits)
    have "old \<in> set xs \<Longrightarrow> row \<in> set (replace1 old row xs)" for xs
      by (induction xs) auto
    then show ?thesis using that r s u by simp
  qed
  from compute_act_commissions_Inr [OF c] obtain a b
    where a: "commission_amount (m_price new) (m_commission_internal_rate new) = Inr a"
      and b: "commission_amount (m_price new) (m_commission_external_rate new) = Inr b"
      and row: "row = new\<lparr>m_commission_internal_amount := Some a, m_commission_external_amount := Some b\<rparr>"
    by blast
  note ra = commission_amount_Inr [OF a] and rb = commission_amount_Inr [OF b]
  have ea: "a' * 10000 = m_price new * r"
    if "m_commission_internal_rate new = Some r" "(m_price new * r) mod 10000 = 0" "Some a = Some a'" for r a'
    using that ra round_half_away_exact [of 10000 "m_price new * r"] by simp
  have eb: "b' * 10000 = m_price new * r"
    if "m_commission_external_rate new = Some r" "(m_price new * r) mod 10000 = 0" "Some b = Some b'" for r b'
    using that rb round_half_away_exact [of 10000 "m_price new * r"] by simp
  have ign: "compute_act_commissions (new\<lparr>m_commission_internal_amount := x,
                                            m_commission_external_amount := y\<rparr>) = Inr row"
    using a b row by (simp add: compute_act_commissions_def)
  have "m_commission_internal_amount row = Some a" "m_commission_external_amount row = Some b"
    using row by simp_all
  then show ?thesis using m ra rb ea eb ign row by (intro bexI [of _ row]) auto
qed

text \<open>
  C7, amended: for every insert or update of a medical act that succeeds, the stored
  row has \<^verbatim>\<open>commission_internal_amount\<close> equal to price times internal rate and
  \<^verbatim>\<open>commission_external_amount\<close> equal to price times external rate, each rounded to two
  decimals (ties away from zero) and with an absent rate counting as 0; the amounts
  are equal to the exact products whenever these have at most two decimals. They are
  computed by the trigger before the row is written, whatever amounts the statement
  supplied, and the other columns are stored as supplied. An act of price \<^verbatim>\<open>100.00\<close>
  with rates \<^verbatim>\<open>0.15\<close> and \<^verbatim>\<open>0.05\<close> gets the amounts \<^verbatim>\<open>15.00\<close> and \<^verbatim>\<open>5.00\<close>.
\<close>

theorem stored_commissions_are_rounded_products:
  "((insert_medical_act d new = Inr d'
      \<or> (old \<in> set (medical_acts d) \<and> medical_acts_center d old = Some True
          \<and> update_medical_act d old new = Inr d'))
     \<longrightarrow> (\<exists>row \<in> set (medical_acts d').
           m_commission_internal_amount row
             = Some (round_half_away
                      (m_price new * (case m_commission_internal_rate new of None \<Rightarrow> 0 | Some r \<Rightarrow> r)) 10000)
           \<and> m_commission_external_amount row
             = Some (round_half_away
                      (m_price new * (case m_commission_external_rate new of None \<Rightarrow> 0 | Some r \<Rightarrow> r)) 10000)
           \<and> (\<forall>r a. m_commission_internal_rate new = Some r \<and> (m_price new * r) mod 10000 = 0
                    \<and> m_commission_internal_amount row = Some a \<longrightarrow> a * 10000 = m_price new * r)
           \<and> (\<forall>r a. m_commission_external_rate new = Some r \<and> (m_price new * r) mod 10000 = 0
                    \<and> m_commission_external_amount row = Some a \<longrightarrow> a * 10000 = m_price new * r)
           \<and> row = new\<lparr>m_commission_internal_amount := m_commission_internal_amount row,
                        m_commission_external_amount := m_commission_external_amount row\<rparr>
           \<and> compute_act_commissions (new\<lparr>m_commission_internal_amount := x,
                                            m_commission_external_amount := y\<rparr>) = Inr row))
   \<and> compute_act_commissions act_100
       = Inr (act_100\<lparr>m_commission_internal_amount := Some 1500, m_commission_external_amount := Some 500\<rparr>)"
proof (intro conjI impI)
  assume "insert_medical_act d new = Inr d'
          \<or> (old \<in> set (medical_acts d) \<and> medical_acts_center d old = Some True
              \<and> update_medical_act d old new = Inr d')"
  from stored_commissions_general [OF this, where x = x and y = y]
  show "\<exists>row \<in> set (medical_acts d').
           m_commission_internal_amount row
             = Some (round_half_away
                      (m_price new * (case m_commission_internal_rate new of None \<Rightarrow> 0 | Some r \<Rightarrow> r)) 10000)
           \<and> m_commission_external_amount row
             = Some (round_half_away
                      (m_price new * (case m_commission_external_rate new of None \<Rightarrow> 0 | Some r \<Rightarrow> r)) 10000)
           \<and> (\<forall>r a. m_commission_internal_rate new = Some r \<and> (m_price new * r) mod 10000 = 0
                    \<and> m_commission_internal_amount row = Some a \<longrightarrow> a * 10000 = m_price new * r)
           \<and> (\<forall>r a. m_commission_external_rate new = Some r \<and> (m_price new * r) mod 10000 = 0
                    \<and> m_commission_external_amount row = Some a \<longrightarrow> a * 10000 = m_price new * r)
           \<and> row = new\<lparr>m_commission_internal_amount := m_commission_internal_amount row,
                        m_commission_external_amount := m_commission_external_amount row\<rparr>
           \<and> compute_act_commissions (new\<lparr>m_commission_internal_amount := x,
                                            m_commission_external_amount := y\<rparr>) = Inr row" .
next
  show "compute_act_commissions act_100
          = Inr (act_100\<lparr>m_commission_internal_amount := Some 1500, m_commission_external_amount := Some 500\<rparr>)"
    by (simp add: compute_act_commissions_def commission_amount_def numeric_10_2_def round_half_away_def
          act_100_def)
qed

theorem stored_commissions_are_rounded_products_witness:
  "\<exists>row \<in> set (medical_acts alice_db @
                    [act_100\<lparr>m_commission_internal_amount := Some 1500,
                              m_commission_external_amount := Some 500\<rparr>]).
      m_commission_internal_amount row = Some 1500 \<and> m_commission_external_amount row = Some 500
      \<and> compute_act_commissions (act_100\<lparr>m_commission_internal_amount := Some 1,
                                               m_commission_external_amount := Some 2\<rparr>) = Inr row"
proof -
  define D where "D = alice_db\<lparr>medical_acts := medical_acts alice_db @
                        [act_100\<lparr>m_commission_internal_amount := Some 1500,
                                  m_commission_external_amount := Some 500\<rparr>]\<rparr>"
  have i: "insert_medical_act alice_db act_100 = Inr D"
    unfolding D_def
    by (simp add: insert_medical_act_def compute_act_commissions_def commission_amount_def
          numeric_10_2_def round_half_away_def act_100_def medical_acts_center_def encounter_center_def
          sql_eq_def get_user_center_id_def nullif_empty_def alice_db_def example_db_def)
  have r: "round_half_away (m_price act_100 * (case m_commission_internal_rate act_100 of None \<Rightarrow> 0 | Some r \<Rightarrow> r)) 10000 = 1500"
    "round_half_away (m_price act_100 * (case m_commission_external_rate act_100 of None \<Rightarrow> 0 | Some r \<Rightarrow> r)) 10000 = 500"
    by (simp_all add: round_half_away_def act_100_def)
  have m: "medical_acts D = medical_acts alice_db @
             [act_100\<lparr>m_commission_internal_amount := Some 1500, m_commission_external_amount := Some 500\<rparr>]"
    by (simp add: D_def)
  from stored_commissions_are_rounded_products
         [where d = alice_db and new = act_100 and d' = D and old = act_100 and x = "Some 1" and y = "Some 2",
          THEN conjunct1, THEN mp, OF disjI1 [OF i]]
  obtain row where "row \<in> set (medical_acts D)"
    and "m_commission_internal_amount row = Some 1500" "m_commission_external_amount row = Some 500"
    and "compute_act_commissions (act_100\<lparr>m_commission_internal_amount := Some 1,
                                               m_commission_external_amount := Some 2\<rparr>) = Inr row"
    unfolding r by blast
  then show ?thesis unfolding m by blast
qed

section \<open>Consistency engine: invoice totals\<close>

lemma log_audit_change_keeps:
  assumes "log_audit_change d t tg_op old new = Inr d'"
  shows "invoices d' = invoices d \<and> invoice_items d' = invoice_items d \<and> app_center_id d' = app_center_id d"
  using assms by (auto simp: log_audit_change_def Let_def split: option.splits if_splits)

lemma audit_rows_keeps:
  "audit_rows d t tg_op rs = Inr d'
     \<Longrightarrow> invoices d' = invoices d \<and> invoice_items d' = invoice_items d \<and> app_center_id d' = app_center_id d"
proof (induction rs arbitrary: d)
  case Nil
  then show ?case by simp
next
  case (Cons r rs)
  obtain old new where r: "r = (old, new)" by (cases r)
  from Cons.prems r obtain d1 where 1: "log_audit_change d t tg_op old new = Inr d1"
    and 2: "audit_rows d1 t tg_op rs = Inr d'"
    by (auto split: sum.splits)
  from Cons.IH [OF 2] log_audit_change_keeps [OF 1] show ?case by simp
qed

lemma invoices_center_session:
  "app_center_id d' = app_center_id d \<Longrightarrow> invoices_center d' i = invoices_center d i"
  by (simp add: invoices_center_def get_user_center_id_def)

lemma items_total_items:
  "invoice_items d' = invoice_items d \<Longrightarrow> items_total d' t = items_total d t"
  by (simp add: items_total_def)

lemma recalc_invoice_totals_effect:
  assumes "recalc_invoice_totals d target = Inr d'"
  shows "invoice_items d' = invoice_items d \<and> app_center_id d' = app_center_id d
         \<and> invoices d' = map (\<lambda>i. if i_id i = target \<and> invoices_center d i = Some True
                                     then i\<lparr>i_total_amount := items_total d target\<rparr> else i) (invoices d)"
proof (cases "filter (\<lambda>i. i_id i = target \<and> invoices_center d i = Some True) (invoices d) = []")
  case True
  then have "\<forall>i \<in> set (invoices d). \<not> (i_id i = target \<and> invoices_center d i = Some True)"
    by (simp add: filter_empty_conv)
  then have "map (\<lambda>i. if i_id i = target \<and> invoices_center d i = Some True
                       then i\<lparr>i_total_amount := items_total d target\<rparr> else i) (invoices d) = invoices d"
    by (intro map_idI) auto
  moreover have "d' = d" using assms True by (simp add: recalc_invoice_totals_def Let_def)
  ultimately show ?thesis by simp
next
  case False
  with assms obtain t where t: "numeric_10_2 (items_total d target) = Inr t"
    and a: "audit_rows (d\<lparr>invoices := map (\<lambda>i. if i_id i = target \<and> invoices_center d i = Some True
                                                then i\<lparr>i_total_amount := t\<rparr> else i) (invoices d)\<rparr>)
              ''invoices'' ''UPDATE''
              (map (\<lambda>i. (Some (InvoiceRow i), Some (InvoiceRow (i\<lparr>i_total_amount := t\<rparr>))))
                 (filter (\<lambda>i. i_id i = target \<and> invoices_center d i = Some True) (invoices d))) = Inr d'"
    by (auto simp: recalc_invoice_totals_def Let_def split: sum.splits)
  from t have "t = items_total d target" by (auto simp: numeric_10_2_def split: if_splits)
  with audit_rows_keeps [OF a] show ?thesis by simp
qed

lemma recalc_invoice_totals_correct:
  assumes "recalc_invoice_totals d target = Inr d'"
    and "parent \<in> set (invoices d')" and "i_id parent = target" and "invoices_center d' parent = Some True"
  shows "i_total_amount parent = items_total d' target"
proof -
  note e = recalc_invoice_totals_effect [OF assms(1)]
  from e assms(2) obtain i where i: "i \<in> set (invoices d)"
    and parent: "parent = (if i_id i = target \<and> invoices_center d i = Some True
                     then i\<lparr>i_total_amount := items_total d target\<rparr> else i)"
    by auto
  have c: "invoices_center d' parent = invoices_center d parent"
    using e invoices_center_session by blast
  show ?thesis
  proof (cases "i_id i = target \<and> invoices_center d i = Some True")
    case True
    have "i_total_amount parent = items_total d target" by (subst parent) (use True in auto)
    then show ?thesis using e items_total_items by metis
  next
    case False
    have p: "parent = i" by (subst parent) (use False in auto)
    then have "i_id i = target" using assms(3) by simp
    moreover have "invoices_center d i = Some True" using c assms(4) p by simp
    ultimately show ?thesis using False by simp
  qed
qed

lemma exact_line_totals:
  assumes "\<forall>x \<in> set xs. (it_quantity x * it_unit_price x) mod 100 = 0"
  shows "sum_list (map total_price xs) * 100 = sum_list (map (\<lambda>x. it_quantity x * it_unit_price x) xs)"
  using assms
proof (induction xs)
  case Nil
  then show ?case by simp
next
  case (Cons x xs)
  have "total_price x * 100 = it_quantity x * it_unit_price x"
    using Cons.prems round_half_away_exact [of 100 "it_quantity x * it_unit_price x"]
    by (simp add: total_price_def)
  with Cons show ?case by (simp add: distrib_right)
qed

text \<open>
  C5, as stated, fails on the rounding of the line totals: two items of quantity
  \<^verbatim>\<open>0.30\<close> at \<^verbatim>\<open>0.01\<close> each have the stored line total \<^verbatim>\<open>0.00\<close>, and the invoice total is
  \<^verbatim>\<open>0.00\<close>, while the sum of quantity times unit price is \<^verbatim>\<open>0.0060\<close> (\<open>60\<close>
  ten-thousandths), which is \<^verbatim>\<open>0.01\<close> when rounded to two decimals.
\<close>

theorem invoice_total_sums_rounded_lines:
  "map_sum id (\<lambda>d. (map i_total_amount (invoices d), invoice_items d))
     (and_then
        (insert_invoice_item alice_db
           \<lparr>it_id = ''l1'', it_invoice_id = ''i1'', it_quantity = 30, it_unit_price = 1\<rparr>)
        (\<lambda>d. insert_invoice_item d
           \<lparr>it_id = ''l2'', it_invoice_id = ''i1'', it_quantity = 30, it_unit_price = 1\<rparr>))
   = Inr ([0, 0],
          [\<lparr>it_id = ''l1'', it_invoice_id = ''i1'', it_quantity = 30, it_unit_price = 1\<rparr>,
           \<lparr>it_id = ''l2'', it_invoice_id = ''i1'', it_quantity = 30, it_unit_price = 1\<rparr>])
   \<and> (0 :: int) * 100 \<noteq> 30 * 1 + 30 * 1 \<and> round_half_away (30 * 1 + 30 * 1) 100 \<noteq> 0"
  by (simp add: and_then_def insert_invoice_item_def store_item_checks_def recalc_invoice_totals_def
        items_total_def total_price_def round_half_away_def numeric_10_2_def invoices_center_def
        sql_eq_def get_user_center_id_def get_current_user_id_def uuid_in_alice nullif_empty_def
        log_audit_change_def Let_def alice_db_def example_db_def)

lemma invoice_total_general:
  assumes "(insert_invoice_item d new = Inr d' \<and> target = it_invoice_id new)
           \<or> (old \<in> set (invoice_items d) \<and> update_invoice_item d old new = Inr d'
               \<and> target = it_invoice_id new)
           \<or> (old \<in> set (invoice_items d) \<and> delete_invoice_item d old = Inr d'
               \<and> target = it_invoice_id old)"
    and "parent \<in> set (invoices d')" and "i_id parent = target"
    and "invoices_center d' parent = Some True"
  shows "i_total_amount parent
           = sum_list (map total_price (filter (\<lambda>x. it_invoice_id x = target) (invoice_items d')))
         \<and> ((\<forall>x \<in> set (invoice_items d').
                it_invoice_id x = target \<longrightarrow> (it_quantity x * it_unit_price x) mod 100 = 0)
            \<longrightarrow> i_total_amount parent * 100
                  = sum_list (map (\<lambda>x. it_quantity x * it_unit_price x)
                               (filter (\<lambda>x. it_invoice_id x = target) (invoice_items d'))))"
proof -
  from assms(1) obtain d0 where r: "recalc_invoice_totals d0 target = Inr d'"
    by (auto simp: insert_invoice_item_def update_invoice_item_def delete_invoice_item_def
             split: sum.splits if_splits)
  have t: "i_total_amount parent = items_total d' target"
    using recalc_invoice_totals_correct [OF r assms(2,3,4)] .
  then have 1: "i_total_amount parent
                  = sum_list (map total_price (filter (\<lambda>x. it_invoice_id x = target) (invoice_items d')))"
    by (simp add: items_total_def)
  have 2: "i_total_amount parent * 100
             = sum_list (map (\<lambda>x. it_quantity x * it_unit_price x)
                          (filter (\<lambda>x. it_invoice_id x = target) (invoice_items d')))"
    if "\<forall>x \<in> set (invoice_items d').
          it_invoice_id x = target \<longrightarrow> (it_quantity x * it_unit_price x) mod 100 = 0"
  proof -
    from that have "\<forall>x \<in> set (filter (\<lambda>x. it_invoice_id x = target) (invoice_items d')).
                      (it_quantity x * it_unit_price x) mod 100 = 0"
      by simp
    from exact_line_totals [OF this] 1 show ?thesis by simp
  qed
  from 1 2 show ?thesis by blast
qed

text \<open>
  From the total \<^verbatim>\<open>0.00\<close>, the item of quantity 2 at \<^verbatim>\<open>50.00\<close> gives \<^verbatim>\<open>100.00\<close>, the item
  of quantity 1 at \<^verbatim>\<open>25.00\<close> gives \<^verbatim>\<open>125.00\<close>, and deleting the first item gives
  \<^verbatim>\<open>25.00\<close>.
\<close>

lemma invoice_total_example:
  "map_sum id (\<lambda>d. map i_total_amount (invoices d))
     (insert_invoice_item alice_db item_2_at_50) = Inr [10000, 0]"
  "map_sum id (\<lambda>d. map i_total_amount (invoices d))
     (and_then (insert_invoice_item alice_db item_2_at_50)
        (\<lambda>d. insert_invoice_item d item_1_at_25)) = Inr [12500, 0]"
  "map_sum id (\<lambda>d. (map i_total_amount (invoices d), invoice_items d))
     (and_then (and_then (insert_invoice_item alice_db item_2_at_50)
                  (\<lambda>d. insert_invoice_item d item_1_at_25))
        (\<lambda>d. delete_invoice_item d item_2_at_50)) = Inr ([2500, 0], [item_1_at_25])"
  by (simp_all add: and_then_def insert_invoice_item_def delete_invoice_item_def store_item_checks_def
        recalc_invoice_totals_def items_total_def total_price_def round_half_away_def numeric_10_2_def
        invoices_center_def sql_eq_def get_user_center_id_def get_current_user_id_def uuid_in_alice nullif_empty_def
        log_audit_change_def Let_def item_2_at_50_def item_1_at_25_def alice_db_def example_db_def)

text \<open>
  C5, amended: after every insert, update or delete of an invoice line item that
  succeeds, in a session that the policy of \<^verbatim>\<open>invoices\<close> lets update the parent
  invoice (the new parent, for an update), the stored total of the parent equals the
  sum of the stored line totals of its surviving items, a line total being quantity
  times unit price rounded to two decimals; it equals the sum of quantity times unit
  price whenever each of these products has at most two decimals, as with whole
  quantities. The total is recomputed from the rows, so it does not depend on the
  total stored before. From the total \<^verbatim>\<open>0.00\<close>, inserting 2 at \<^verbatim>\<open>50.00\<close> and then 1 at
  \<^verbatim>\<open>25.00\<close> gives \<^verbatim>\<open>125.00\<close>, and deleting the first item gives \<^verbatim>\<open>25.00\<close>.
\<close>

theorem invoice_total_after_line_item_change:
  "(((insert_invoice_item d new = Inr d' \<and> target = it_invoice_id new)
      \<or> (old \<in> set (invoice_items d) \<and> update_invoice_item d old new = Inr d'
          \<and> target = it_invoice_id new)
      \<or> (old \<in> set (invoice_items d) \<and> delete_invoice_item d old = Inr d'
          \<and> target = it_invoice_id old))
     \<and> parent \<in> set (invoices d') \<and> i_id parent = target \<and> invoices_center d' parent = Some True
     \<longrightarrow> i_total_amount parent
           = sum_list (map total_price (filter (\<lambda>x. it_invoice_id x = target) (invoice_items d')))
         \<and> ((\<forall>x \<in> set (invoice_items d').
                it_invoice_id x = target \<longrightarrow> (it_quantity x * it_unit_price x) mod 100 = 0)
            \<longrightarrow> i_total_amount parent * 100
                  = sum_list (map (\<lambda>x. it_quantity x * it_unit_price x)
                               (filter (\<lambda>x. it_invoice_id x = target) (invoice_items d')))))
   \<and> map_sum id (\<lambda>d. map i_total_amount (invoices d))
        (and_then (insert_invoice_item alice_db item_2_at_50)
           (\<lambda>d. insert_invoice_item d item_1_at_25)) = Inr [12500, 0]
   \<and> map_sum id (\<lambda>d. (map i_total_amount (invoices d), invoice_items d))
        (and_then (and_then (insert_invoice_item alice_db item_2_at_50)
                     (\<lambda>d. insert_invoice_item d item_1_at_25))
           (\<lambda>d. delete_invoice_item d item_2_at_50)) = Inr ([2500, 0], [item_1_at_25])"
proof -
  have g: "((insert_invoice_item d new = Inr d' \<and> target = it_invoice_id new)
      \<or> (old \<in> set (invoice_items d) \<and> update_invoice_item d old new = Inr d'
          \<and> target = it_invoice_id new)
      \<or> (old \<in> set (invoice_items d) \<and> delete_invoice_item d old = Inr d'
          \<and> target = it_invoice_id old))
     \<and> parent \<in> set (invoices d') \<and> i_id parent = target \<and> invoices_center d' parent = Some True
     \<longrightarrow> i_total_amount parent
           = sum_list (map total_price (filter (\<lambda>x. it_invoice_id x = target) (invoice_items d')))
         \<and> ((\<forall>x \<in> set (invoice_items d').
                it_invoice_id x = target \<longrightarrow> (it_quantity x * it_unit_price x) mod 100 = 0)
            \<longrightarrow> i_total_amount parent * 100
                  = sum_list (map (\<lambda>x. it_quantity x * it_unit_price x)
                               (filter (\<lambda>x. it_invoice_id x = target) (invoice_items d'))))"
  proof (rule impI)
    assume a: "((insert_invoice_item d new = Inr d' \<and> target = it_invoice_id new)
        \<or> (old \<in> set (invoice_items d) \<and> update_invoice_item d old new = Inr d'
            \<and> target = it_invoice_id new)
        \<or> (old \<in> set (invoice_items d) \<and> delete_invoice_item d old = Inr d'
            \<and> target = it_invoice_id old))
       \<and> parent \<in> set (invoices d') \<and> i_id parent = target \<and> invoices_center d' parent = Some True"
    then have 1: "(insert_invoice_item d new = Inr d' \<and> target = it_invoice_id new)
        \<or> (old \<in> set (invoice_items d) \<and> update_invoice_item d old new = Inr d'
            \<and> target = it_invoice_id new)
        \<or> (old \<in> set (invoice_items d) \<and> delete_invoice_item d old = Inr d'
            \<and> target = it_invoice_id old)"
      and 2: "parent \<in> set (invoices d')" and 3: "i_id parent = target"
      and 4: "invoices_center d' parent = Some True"
      by simp_all
    show "i_total_amount parent
           = sum_list (map total_price (filter (\<lambda>x. it_invoice_id x = target) (invoice_items d')))
         \<and> ((\<forall>x \<in> set (invoice_items d').
                it_invoice_id x = target \<longrightarrow> (it_quantity x * it_unit_price x) mod 100 = 0)
            \<longrightarrow> i_total_amount parent * 100
                  = sum_list (map (\<lambda>x. it_quantity x * it_unit_price x)
                               (filter (\<lambda>x. it_invoice_id x = target) (invoice_items d'))))"
      by (rule invoice_total_general [OF 1 2 3 4])
  qed
  show ?thesis
    by (intro conjI g invoice_total_example(2) invoice_total_example(3))
qed

theorem invoice_total_after_line_item_change_witness:
  "i_total_amount \<lparr>i_id = ''i1'', i_center_id = ''A'', i_total_amount = 10000\<rparr>
     = sum_list (map total_price (filter (\<lambda>x. it_invoice_id x = ''i1'') [item_2_at_50]))
   \<and> i_total_amount \<lparr>i_id = ''i1'', i_center_id = ''A'', i_total_amount = 10000\<rparr> * 100
     = sum_list (map (\<lambda>x. it_quantity x * it_unit_price x)
                  (filter (\<lambda>x. it_invoice_id x = ''i1'') [item_2_at_50]))"
proof -
  define D where "D = alice_db
    \<lparr>invoices := [\<lparr>i_id = ''i1'', i_center_id = ''A'', i_total_amount = 10000\<rparr>,
                  \<lparr>i_id = ''i2'', i_center_id = ''B'', i_total_amount = 0\<rparr>],
     invoice_items := [item_2_at_50],
     audit_logs := [\<lparr>l_table_name = ''invoices'', l_operation = ''UPDATE'',
                     l_user_id = None, l_record_id = Some ''i1'',
                     l_old_data = Some (InvoiceRow \<lparr>i_id = ''i1'', i_center_id = ''A'', i_total_amount = 0\<rparr>),
                     l_new_data = Some (InvoiceRow \<lparr>i_id = ''i1'', i_center_id = ''A'',
                                                   i_total_amount = 10000\<rparr>)\<rparr>]\<rparr>"
  have i: "insert_invoice_item alice_db item_2_at_50 = Inr D \<and> ''i1'' = it_invoice_id item_2_at_50"
    unfolding D_def
    by (simp add: insert_invoice_item_def store_item_checks_def recalc_invoice_totals_def
          items_total_def total_price_def round_half_away_def numeric_10_2_def invoices_center_def
          sql_eq_def get_user_center_id_def get_current_user_id_def uuid_in_alice nullif_empty_def
          log_audit_change_def Let_def item_2_at_50_def alice_db_def example_db_def)
  have p: "\<lparr>i_id = ''i1'', i_center_id = ''A'', i_total_amount = 10000\<rparr> \<in> set (invoices D)"
    by (simp add: D_def)
  have n: "i_id \<lparr>i_id = ''i1'', i_center_id = ''A'', i_total_amount = 10000\<rparr> = ''i1''" by simp
  have v: "invoices_center D \<lparr>i_id = ''i1'', i_center_id = ''A'', i_total_amount = 10000\<rparr> = Some True"
    by (simp add: D_def invoices_center_def sql_eq_def get_user_center_id_def nullif_empty_def
          alice_db_def example_db_def)
  have items: "invoice_items D = [item_2_at_50]" by (simp add: D_def)
  have w: "\<forall>x \<in> set (invoice_items D).
             it_invoice_id x = ''i1'' \<longrightarrow> (it_quantity x * it_unit_price x) mod 100 = 0"
    by (simp add: items item_2_at_50_def)
  have h: "((insert_invoice_item alice_db item_2_at_50 = Inr D \<and> ''i1'' = it_invoice_id item_2_at_50)
      \<or> (item_2_at_50 \<in> set (invoice_items alice_db)
          \<and> update_invoice_item alice_db item_2_at_50 item_2_at_50 = Inr D
          \<and> ''i1'' = it_invoice_id item_2_at_50)
      \<or> (item_2_at_50 \<in> set (invoice_items alice_db)
          \<and> delete_invoice_item alice_db item_2_at_50 = Inr D
          \<and> ''i1'' = it_invoice_id item_2_at_50))
     \<and> \<lparr>i_id = ''i1'', i_center_id = ''A'', i_total_amount = 10000\<rparr> \<in> set (invoices D)
     \<and> i_id \<lparr>i_id = ''i1'', i_center_id = ''A'', i_total_amount = 10000\<rparr> = ''i1''
     \<and> invoices_center D \<lparr>i_id = ''i1'', i_center_id = ''A'', i_total_amount = 10000\<rparr> = Some True"
    using i p n v by blast
  from invoice_total_after_line_item_change
         [where d = alice_db and new = item_2_at_50 and d' = D and old = item_2_at_50
            and target = "''i1''"
            and parent = "\<lparr>i_id = ''i1'', i_center_id = ''A'', i_total_amount = 10000\<rparr>",
          THEN conjunct1, THEN mp, OF h] w
  show ?thesis unfolding items by blast
qed

section \<open>Consistency engine: pharmacy stock\<close>

lemma sql_map_Inr:
  "sql_map f xs = Inr ys \<Longrightarrow> list_all2 (\<lambda>x y. f x = Inr y) xs ys"
proof (induction xs arbitrary: ys)
  case Nil
  then show ?case by simp
next
  case (Cons x xs)
  then show ?case by (auto split: sum.splits)
qed

lemma list_all2_source:
  "list_all2 P xs ys \<Longrightarrow> y \<in> set ys \<Longrightarrow> \<exists>x \<in> set xs. P x y"
  by (induction rule: list_all2_induct) auto

lemma find_by_id:
  "distinct (map ph_id xs) \<Longrightarrow> x \<in> set xs \<Longrightarrow> find (\<lambda>i. ph_id i = ph_id x) xs = Some x"
  by (induction xs) (auto simp: image_iff)

lemma add_stock_id: "add_stock new item = Inr item' \<Longrightarrow> ph_id item' = ph_id item"
  by (auto simp: add_stock_def split: if_splits option.splits sum.splits)

lemma insert_pharmacy_transaction_items:
  assumes "insert_pharmacy_transaction d new = Inr d'"
  shows "list_all2 (\<lambda>x y. add_stock new x = Inr y) (pharmacy_items d) (pharmacy_items d')"
    and "pharmacy_transactions d' = pharmacy_transactions d @ [new]"
proof -
  from assms obtain items
    where s: "sql_map (add_stock new) (pharmacy_items d) = Inr items"
      and d': "d' = d\<lparr>pharmacy_transactions := pharmacy_transactions d @ [new], pharmacy_items := items\<rparr>"
    by (auto simp: insert_pharmacy_transaction_def fn_update_pharmacy_stock_def
             split: sum.splits if_splits)
  from sql_map_Inr [OF s] d'
  show "list_all2 (\<lambda>x y. add_stock new x = Inr y) (pharmacy_items d) (pharmacy_items d')"
    by simp
  from d' show "pharmacy_transactions d' = pharmacy_transactions d @ [new]" by simp
qed

text \<open>
  The handler of \<^verbatim>\<open>pharmacyItemsRouter\<close> rejects an outbound entry larger than the stock
  it read, before it inserts anything: no state is returned.
\<close>

lemma createTransaction_rejects_excess:
  assumes "find (\<lambda>i. ph_id i = ti_itemId input) (pharmacy_items d) = Some item"
    and "ti_transactionType input = Out" and "0 < ti_quantity input"
    and "stock_or_zero item < ti_quantity input"
  shows "createTransaction_handler input u (Some d)
           = Inl (TRPCError BAD_REQUEST (Insufficient_stock (stock_or_zero item) (ti_quantity input)))"
  using assms by (simp add: createTransaction_handler_def)

text \<open>
  With one row per item identifier (the primary key), a request that it accepts keeps
  every stock non-negative.
\<close>

lemma createTransaction_handler_keeps_stock:
  assumes "distinct (map ph_id (pharmacy_items d))"
    and "\<forall>i \<in> set (pharmacy_items d). 0 \<le> stock_or_zero i"
    and "createTransaction_handler input u (Some d) = Inr (r, d')"
  shows "(\<forall>i \<in> set (pharmacy_items d'). 0 \<le> stock_or_zero i)
         \<and> map ph_id (pharmacy_items d') = map ph_id (pharmacy_items d)"
proof -
  define new where "new = \<lparr>tx_item_id = Some (ti_itemId input),
                             tx_transaction_type = ti_transactionType input,
                             tx_quantity = ti_quantity input\<rparr>"
  from assms(3) obtain item
    where q: "0 < ti_quantity input"
      and f: "find (\<lambda>i. ph_id i = ti_itemId input) (pharmacy_items d) = Some item"
      and ok: "\<not> (ti_transactionType input = Out \<and> stock_or_zero item < ti_quantity input)"
      and ins: "insert_pharmacy_transaction d new = Inr d'"
    unfolding new_def
    by (auto simp: createTransaction_handler_def split: if_splits option.splits sum.splits sql_error.splits)
  note l = insert_pharmacy_transaction_items(1) [OF ins]
  have ids: "map ph_id (pharmacy_items d') = map ph_id (pharmacy_items d)"
  proof -
    from l have "list_all2 (\<lambda>x y. ph_id y = ph_id x) (pharmacy_items d) (pharmacy_items d')"
      by (rule list_all2_mono) (simp add: add_stock_id)
    then show ?thesis
      by (induction rule: list_all2_induct) simp_all
  qed
  have "0 \<le> stock_or_zero i'" if "i' \<in> set (pharmacy_items d')" for i'
  proof -
    from list_all2_source [OF l that]
    obtain i where i: "i \<in> set (pharmacy_items d)" and a: "add_stock new i = Inr i'"
      by auto
    from assms(2) i have nn: "0 \<le> stock_or_zero i" by simp
    show ?thesis
    proof (cases "ph_id i = ti_itemId input")
      case False
      then have "i' = i" using a by (simp add: add_stock_def new_def)
      then show ?thesis using nn by simp
    next
      case True
      from find_by_id [OF assms(1) i] True f have same: "item = i" by simp
      show ?thesis
      proof (cases "ph_current_stock i")
        case None
        then have "i' = i" using a by (auto simp: add_stock_def split: if_splits)
        then show ?thesis using nn by simp
      next
        case (Some s)
        then have s: "stock_or_zero i = s" by (simp add: stock_or_zero_def)
        from a Some True have i': "ph_current_stock i' = Some (s + signed_quantity new)"
          by (auto simp: add_stock_def new_def int4_def split: sum.splits if_splits)
        have "0 \<le> s + signed_quantity new"
        proof (cases "ti_transactionType input")
          case In
          then show ?thesis using q nn s by (simp add: signed_quantity_def new_def)
        next
          case Out
          then have "ti_quantity input \<le> s" using ok same s by simp
          then show ?thesis using Out by (simp add: signed_quantity_def new_def)
        qed
        then show ?thesis using i' by (simp add: stock_or_zero_def)
      qed
    qed
  qed
  then show ?thesis using ids by simp
qed

lemma setRLSContext_keeps_pharmacy:
  "setRLSContext (Some d) uid c = Inr d1 \<Longrightarrow> pharmacy_items d1 = pharmacy_items d"
  by (auto simp: setRLSContext_def split: option.splits if_splits)

lemma createTransaction_keeps_stock:
  assumes "distinct (map ph_id (pharmacy_items d))"
    and "\<forall>i \<in> set (pharmacy_items d). 0 \<le> stock_or_zero i"
    and "pharmacyItems_createTransaction (Some d) (Some u) input = Inr (r, d')"
  shows "(\<forall>i \<in> set (pharmacy_items d'). 0 \<le> stock_or_zero i)
         \<and> map ph_id (pharmacy_items d') = map ph_id (pharmacy_items d)"
proof -
  from assms(3) obtain d1
    where s: "setRLSContext (Some d) (user_id u) (or_null (user_centerId u)) = Inr d1"
      and h: "createTransaction_handler input u (Some d1) = Inr (r, d')"
    by (auto simp: pharmacyItems_createTransaction_def requireUser_def split: sum.splits)
  from setRLSContext_keeps_pharmacy [OF s] assms(1,2)
  have "distinct (map ph_id (pharmacy_items d1))" "\<forall>i \<in> set (pharmacy_items d1). 0 \<le> stock_or_zero i"
    by simp_all
  from createTransaction_handler_keeps_stock [OF this h] setRLSContext_keeps_pharmacy [OF s]
  show ?thesis by simp
qed

text \<open>
  So no sequence of requests to that handler makes a stock negative.
\<close>

lemma createTransaction_requests_keep_stock:
  "distinct (map ph_id (pharmacy_items d)) \<Longrightarrow> \<forall>i \<in> set (pharmacy_items d). 0 \<le> stock_or_zero i
     \<Longrightarrow> \<forall>i \<in> set (pharmacy_items (createTransaction_requests d rs)). 0 \<le> stock_or_zero i"
proof (induction rs arbitrary: d)
  case Nil
  then show ?case by simp
next
  case (Cons x rs)
  obtain u input where x: "x = (u, input)" by (cases x)
  show ?case
  proof (cases "pharmacyItems_createTransaction (Some d) (Some u) input")
    case (Inl e)
    then show ?thesis using Cons x by simp
  next
    case (Inr p)
    obtain r d' where p: "p = (r, d')" by (cases p)
    from createTransaction_keeps_stock [OF Cons.prems] Inr p
    have "(\<forall>i \<in> set (pharmacy_items d'). 0 \<le> stock_or_zero i)
          \<and> map ph_id (pharmacy_items d') = map ph_id (pharmacy_items d)"
      by blast
    then have "\<forall>i \<in> set (pharmacy_items (createTransaction_requests d' rs)). 0 \<le> stock_or_zero i"
      using Cons.IH [of d'] Cons.prems(1) by simp
    then show ?thesis using Inr p x by simp
  qed
qed

text \<open>
  The example of the claim through that handler: with stock 10, an outbound entry of
  15 is rejected and an outbound entry of 10 leaves the stock at 0.
\<close>

lemma createTransaction_example:
  "pharmacyItems_createTransaction (Some example_db) (Some alice)
      \<lparr>ti_itemId = ''x1'', ti_transactionType = Out, ti_quantity = 15\<rparr>
     = Inl (TRPCError BAD_REQUEST (Insufficient_stock 10 15))"
  "map_sum id (\<lambda>(r, d). (snd r, pharmacy_items d, pharmacy_transactions d))
     (pharmacyItems_createTransaction (Some example_db) (Some alice)
        \<lparr>ti_itemId = ''x1'', ti_transactionType = Out, ti_quantity = 10\<rparr>)
     = Inr (0, [\<lparr>ph_id = ''x1'', ph_center_id = Some ''A'', ph_current_stock = Some 0\<rparr>],
            [\<lparr>tx_item_id = Some ''x1'', tx_transaction_type = Out, tx_quantity = 10\<rparr>])"
  by (simp_all add: pharmacyItems_createTransaction_def requireUser_def setRLSContext_def or_null_def
        createTransaction_handler_def insert_pharmacy_transaction_def fn_update_pharmacy_stock_def
        add_stock_def signed_quantity_def stock_or_zero_def int4_def alice_def example_db_def)

text \<open>
  C6 fails on the other route. \<^verbatim>\<open>pharmacyRouter.createTransaction\<close> inserts the entry
  without reading the stock, and the trigger subtracts without comparing: with stock
  10, an outbound entry of 15 is accepted, the entry is in the ledger and the stock is
  \<open>-5\<close>.
\<close>

theorem pharmacy_createTransaction_makes_stock_negative:
  "map_sum id (\<lambda>(r, d). (pharmacy_items d, pharmacy_transactions d))
     (pharmacy_createTransaction (Some example_db) (Some alice)
        \<lparr>ti_itemId = ''x1'', ti_transactionType = Out, ti_quantity = 15\<rparr>)
     = Inr ([\<lparr>ph_id = ''x1'', ph_center_id = Some ''A'', ph_current_stock = Some (- 5)\<rparr>],
            [\<lparr>tx_item_id = Some ''x1'', tx_transaction_type = Out, tx_quantity = 15\<rparr>])"
  by (simp add: pharmacy_createTransaction_def requireUser_def setRLSContext_def or_null_def
        pharmacy_createTransaction_handler_def insert_pharmacy_transaction_def fn_update_pharmacy_stock_def
        add_stock_def signed_quantity_def int4_def alice_def example_db_def)

end
